theory Spec2Isabelle
  imports Complex_Main "HOL-Library.Sublist"
begin

section \<open>JavaScript values and string primitives\<close>

text \<open>
  Strings are lists of characters. \<open>String.prototype.length\<close> is \<open>length\<close>,
  \<open>substring(0, n)\<close> is \<open>take n\<close>, \<open>startsWith\<close> is \<open>prefix\<close> and
  \<open>includes\<close> is \<open>sublist\<close>. Template literals are concatenations.
\<close>

definition nl :: string where
  "nl = [CHR 0x0A]"

text \<open>\<open>Array.prototype.join\<close> on an array of strings.\<close>

fun join :: "string \<Rightarrow> string list \<Rightarrow> string" where
  "join sep [] = []"
| "join sep [x] = x"
| "join sep (x # y # ys) = x @ sep @ join sep (y # ys)"

subsection \<open>Numbers\<close>

text \<open>
  A JavaScript number is \<open>NaN\<close>, an infinity or a finite value. A finite number is
  identified with the rational that its decimal rendering denotes; comparisons and
  the sign of a difference are then exact.
\<close>

datatype jsnum = NaN | NegInf | Fin rat | PosInf

fun js_sub :: "jsnum \<Rightarrow> jsnum \<Rightarrow> jsnum" where
  "js_sub NaN _ = NaN"
| "js_sub _ NaN = NaN"
| "js_sub (Fin a) (Fin b) = Fin (a - b)"
| "js_sub PosInf PosInf = NaN"
| "js_sub NegInf NegInf = NaN"
| "js_sub PosInf _ = PosInf"
| "js_sub _ NegInf = PosInf"
| "js_sub NegInf _ = NegInf"
| "js_sub _ PosInf = NegInf"

text \<open>\<open>a >= b\<close> on numbers: false as soon as one side is \<open>NaN\<close>.\<close>

fun js_ge :: "jsnum \<Rightarrow> jsnum \<Rightarrow> bool" where
  "js_ge NaN _ = False"
| "js_ge _ NaN = False"
| "js_ge PosInf _ = True"
| "js_ge _ NegInf = True"
| "js_ge (Fin a) (Fin b) = (b \<le> a)"
| "js_ge _ _ = False"

text \<open>\<open>x || 0\<close> on a number that may be \<open>undefined\<close>: \<open>NaN\<close>, zero and \<open>undefined\<close> give 0.\<close>

fun or_zero :: "jsnum option \<Rightarrow> jsnum" where
  "or_zero None = Fin 0"
| "or_zero (Some NaN) = Fin 0"
| "or_zero (Some x) = x"

subsection \<open>Characters outside ASCII, and rounding\<close>

text \<open>
  A character below \<open>0x80\<close> is the ASCII character; a character from \<open>0x80\<close> on
  stands for a code unit outside ASCII. What the engine's Unicode tables say about
  text outside ASCII, and how the engine rounds an exact decimal value to a number, is
  not computed here: it is a parameter. \<open>white_space_other\<close> tells whether a code unit
  outside ASCII is white space (as the no-break space is), \<open>upper_case_other\<close> is
  \<open>String.prototype.toUpperCase\<close> on a text that is not all ASCII (where one letter can
  become several, as sharp s becomes \<open>SS\<close>), and \<open>to_double\<close> gives the number
  that a decimal value denotes (the nearest double, an infinity on overflow).
\<close>

record engine =
  white_space_other :: "char \<Rightarrow> bool"
  upper_case_other :: "string \<Rightarrow> string"
  to_double :: "rat \<Rightarrow> jsnum"

definition ascii_char :: "char \<Rightarrow> bool" where
  "ascii_char c = ((of_char c :: nat) < 128)"

definition ascii :: "string \<Rightarrow> bool" where
  "ascii s = list_all ascii_char s"

text \<open>
  White space, as the regular expression class \<open>\s\<close>, \<open>String.prototype.trim\<close> and
  the number parsers recognise it: the six ASCII characters, and the code units outside
  ASCII that the engine's tables name.
\<close>

definition is_space :: "engine \<Rightarrow> char \<Rightarrow> bool" where
  "is_space eng c =
     (c \<in> set [CHR 0x09, CHR 0x0A, CHR 0x0B, CHR 0x0C, CHR 0x0D, CHR 0x20]
      \<or> (\<not> ascii_char c \<and> white_space_other eng c))"

definition trim :: "engine \<Rightarrow> string \<Rightarrow> string" where
  "trim eng s = rev (dropWhile (is_space eng) (rev (dropWhile (is_space eng) s)))"

text \<open>
  \<open>String.prototype.toUpperCase\<close>: on ASCII text the letters \<open>a\<close> to \<open>z\<close> become
  \<open>A\<close> to \<open>Z\<close>; on any other text the result is the engine's.
\<close>

definition upper_char :: "char \<Rightarrow> char" where
  "upper_char c =
     (case map_of (zip ''abcdefghijklmnopqrstuvwxyz'' ''ABCDEFGHIJKLMNOPQRSTUVWXYZ'') c of
        None \<Rightarrow> c
      | Some u \<Rightarrow> u)"

definition toUpperCase :: "engine \<Rightarrow> string \<Rightarrow> string" where
  "toUpperCase eng s = (if ascii s then map upper_char s else upper_case_other eng s)"

text \<open>\<open>s.replace(/\s+/g, ' ')\<close>: every maximal run of white space becomes one blank.\<close>

function collapse_ws :: "engine \<Rightarrow> string \<Rightarrow> string" where
  "collapse_ws eng [] = []"
| "collapse_ws eng (c # cs) =
     (if is_space eng c then CHR 0x20 # collapse_ws eng (dropWhile (is_space eng) cs)
      else c # collapse_ws eng cs)"
  by pat_completeness auto
termination
  by (relation "measure (\<lambda>(eng, s). length s)") (auto simp: length_dropWhile_le less_Suc_eq_le)

text \<open>
  A string-valued expression that may be \<open>undefined\<close> is a \<open>string option\<close>. It is
  falsy when it is \<open>undefined\<close> or empty; \<open>a || b\<close> is \<open>a\<close> unless \<open>a\<close> is falsy.
\<close>

definition falsy :: "string option \<Rightarrow> bool" where
  "falsy a = (a = None \<or> a = Some [])"

definition or_str :: "string option \<Rightarrow> string option \<Rightarrow> string option" where
  "or_str a b = (if falsy a then b else a)"

definition or_lit :: "string option \<Rightarrow> string \<Rightarrow> string" where
  "or_lit a d = (case a of None \<Rightarrow> d | Some s \<Rightarrow> if s = [] then d else s)"

text \<open>\<open>Array.prototype.slice(a, b)\<close>, negative indices counting from the end.\<close>

definition js_slice :: "'a list \<Rightarrow> int \<Rightarrow> int \<Rightarrow> 'a list" where
  "js_slice xs a b =
     (let n = int (length xs);
          from = (if a < 0 then max (n + a) 0 else min a n);
          to = (if b < 0 then max (n + b) 0 else min b n)
      in take (nat (to - from)) (drop (nat from) xs))"

text \<open>
  The statement \<open>for (let i = i0; i < n; i += step) acc = body(i, acc)\<close>. With a step
  that is not positive the loop never ends: the result is then \<open>None\<close>.
\<close>

partial_function (option) for_step ::
  "int \<Rightarrow> int \<Rightarrow> (int \<Rightarrow> 'a \<Rightarrow> 'a) \<Rightarrow> int \<Rightarrow> 'a \<Rightarrow> 'a option" where
  "for_step n step body i acc =
     (if i < n then for_step n step body (i + step) (body i acc) else Some acc)"

declare for_step.simps [code]

subsection \<open>Parsed JSON values, \<open>parseInt\<close> and \<open>parseFloat\<close>\<close>

datatype json =
    JNull
  | JBool bool
  | JNum jsnum
  | JStr string
  | JArr "json list"
  | JObj "(string \<times> json) list"

datatype error = Error string

fun message :: "error \<Rightarrow> string" where
  "message (Error m) = m"

text \<open>
  Reading a property of a parsed value, for a name that no prototype defines: \<open>null\<close>
  throws a \<open>TypeError\<close>, an object gives the value stored last under the name or
  \<open>undefined\<close> (\<open>None\<close>), every other value gives \<open>undefined\<close>.
\<close>

fun get_prop :: "json \<Rightarrow> string \<Rightarrow> error + json option" where
  "get_prop JNull k = Inl (Error (''Cannot read properties of null (reading '' @ k @ '')''))"
| "get_prop (JObj kvs) k = Inr (map_of (rev kvs) k)"
| "get_prop _ k = Inr None"

fun truthy :: "json \<Rightarrow> bool" where
  "truthy JNull = False"
| "truthy (JBool b) = b"
| "truthy (JNum x) = (x \<noteq> NaN \<and> x \<noteq> Fin 0)"
| "truthy (JStr s) = (s \<noteq> [])"
| "truthy (JArr _) = True"
| "truthy (JObj _) = True"

definition is_digit :: "char \<Rightarrow> bool" where
  "is_digit c = ((48::nat) \<le> of_char c \<and> of_char c \<le> (57::nat))"

text \<open>The value of a character as a digit of the given radix (10 or 16).\<close>

definition digit_of :: "nat \<Rightarrow> char \<Rightarrow> nat option" where
  "digit_of radix c =
     (let n = (of_char c :: nat);
          v = (if 48 \<le> n \<and> n \<le> 57 then Some (n - 48)
               else if 97 \<le> n \<and> n \<le> 102 then Some (n - 87)
               else if 65 \<le> n \<and> n \<le> 70 then Some (n - 55)
               else None)
      in case v of None \<Rightarrow> None | Some d \<Rightarrow> if d < radix then Some d else None)"

definition digits_val :: "nat \<Rightarrow> string \<Rightarrow> nat" where
  "digits_val radix ds = foldl (\<lambda>a c. a * radix + the (digit_of radix c)) 0 ds"

text \<open>An optional sign in front of the rest of the text.\<close>

fun split_sign :: "string \<Rightarrow> rat \<times> string" where
  "split_sign [] = (1, [])"
| "split_sign (c # cs) =
     (if c = CHR ''-'' then (- 1, cs) else if c = CHR ''+'' then (1, cs) else (1, c # cs))"

text \<open>
  \<open>parseInt(s)\<close> on a string, with no radix argument: leading white space is skipped,
  a sign is read, the prefix \<open>0x\<close> or \<open>0X\<close> selects radix 16, and the longest run of
  digits is the value, rounded by the engine; without a digit the result is \<open>NaN\<close>.
\<close>

definition parseInt_str :: "engine \<Rightarrow> string \<Rightarrow> jsnum" where
  "parseInt_str eng s =
     (let (sg, s2) = split_sign (dropWhile (is_space eng) s);
          hex = (prefix ''0x'' s2 \<or> prefix ''0X'' s2);
          radix = (if hex then 16 else 10);
          s3 = (if hex then drop 2 s2 else s2);
          ds = takeWhile (\<lambda>c. digit_of radix c \<noteq> None) s3
      in if ds = [] then NaN else to_double eng (sg * of_nat (digits_val radix ds)))"

text \<open>A power of ten with an integer exponent.\<close>

definition pow10 :: "int \<Rightarrow> rat" where
  "pow10 e = (if 0 \<le> e then 10 ^ nat e else 1 / 10 ^ nat (- e))"

text \<open>
  The exponent part \<open>e\<close>, \<open>e+\<close> or \<open>e-\<close> followed by digits, when the text starts with
  one; otherwise the exponent is 0.
\<close>

definition read_exponent :: "string \<Rightarrow> int" where
  "read_exponent s =
     (case s of
        [] \<Rightarrow> 0
      | c # cs \<Rightarrow>
          if c = CHR ''e'' \<or> c = CHR ''E'' then
            (let (sg, r) = split_sign cs; ds = takeWhile is_digit r
             in if ds = [] then 0
                else (if sg < 0 then - int (digits_val 10 ds) else int (digits_val 10 ds)))
          else 0)"

text \<open>
  \<open>parseFloat(s)\<close> on a string: leading white space is skipped and the longest prefix
  that is a decimal literal (or a signed \<open>Infinity\<close>) is the value, rounded by the
  engine; without one the result is \<open>NaN\<close>.
\<close>

definition parseFloat_str :: "engine \<Rightarrow> string \<Rightarrow> jsnum" where
  "parseFloat_str eng s =
     (let (sg, s2) = split_sign (dropWhile (is_space eng) s) in
      if prefix ''Infinity'' s2 then (if sg < 0 then NegInf else PosInf)
      else
        (let ip = takeWhile is_digit s2;
             r1 = dropWhile is_digit s2;
             dot = (r1 \<noteq> [] \<and> hd r1 = CHR ''.'');
             fp = (if dot then takeWhile is_digit (tl r1) else []);
             r2 = (if dot then dropWhile is_digit (tl r1) else r1)
         in if ip = [] \<and> fp = [] then NaN
            else to_double eng
                   (sg * (of_nat (digits_val 10 ip)
                          + of_nat (digits_val 10 fp) / 10 ^ length fp)
                       * pow10 (read_exponent r2))))"

fun ndigits :: "nat \<Rightarrow> nat" where
  "ndigits n = (if n < 10 then 1 else Suc (ndigits (n div 10)))"

declare ndigits.simps [simp del]

text \<open>
  \<open>parseInt(x)\<close> on a number reads the integer in front of the number's rendering: the
  integer part when the rendering is plain (magnitude from \<open>1e-6\<close> up to \<open>1e21\<close>), the
  leading digit when the rendering is in exponent form.
\<close>

definition parseInt_num :: "jsnum \<Rightarrow> jsnum" where
  "parseInt_num x =
     (case x of
        Fin q \<Rightarrow>
          (let a = \<bar>q\<bar>; sg = sgn q in
           if q = 0 then Fin 0
           else if 10 ^ 21 \<le> a then
             (let n = nat \<lfloor>a\<rfloor> in Fin (sg * of_nat (n div 10 ^ (ndigits n - 1))))
           else if a < 1 / 10 ^ 6 then
             (let m = nat \<lfloor>1 / a\<rfloor>;
                  k = (if of_nat m = 1 / a \<and> m = 10 ^ (ndigits m - 1)
                       then ndigits m - 1 else ndigits m)
              in Fin (sg * of_int \<lfloor>a * 10 ^ k\<rfloor>))
           else Fin (sg * of_int \<lfloor>a\<rfloor>))
      | _ \<Rightarrow> NaN)"

text \<open>
  \<open>parseInt\<close> and \<open>parseFloat\<close> convert their argument to a string first. For an
  object parsed from JSON that has an own key \<open>toString\<close>, the conversion finds no
  callable \<open>toString\<close> or \<open>valueOf\<close> that gives a primitive and throws a \<open>TypeError\<close>;
  an array is converted by joining the conversions of all its elements, so it throws
  when one of them does.
\<close>

fun to_string_throws :: "json \<Rightarrow> bool" where
  "to_string_throws (JObj kvs) = (map_of (rev kvs) ''toString'' \<noteq> None)"
| "to_string_throws (JArr xs) = (\<exists>x \<in> set xs. to_string_throws x)"
| "to_string_throws _ = False"

text \<open>
  When the conversion does not throw: \<open>null\<close>, booleans and objects render as text
  without a leading digit; an array renders as its elements separated by commas, so
  only its first element is read.
\<close>

fun parseInt_value :: "engine \<Rightarrow> json \<Rightarrow> jsnum" where
  "parseInt_value eng (JStr s) = parseInt_str eng s"
| "parseInt_value eng (JNum x) = parseInt_num x"
| "parseInt_value eng (JArr (x # xs)) = parseInt_value eng x"
| "parseInt_value eng _ = NaN"

fun parseFloat_value :: "engine \<Rightarrow> json \<Rightarrow> jsnum" where
  "parseFloat_value eng (JStr s) = parseFloat_str eng s"
| "parseFloat_value eng (JNum x) = x"
| "parseFloat_value eng (JArr (x # xs)) = parseFloat_value eng x"
| "parseFloat_value eng _ = NaN"

definition parseInt_json :: "engine \<Rightarrow> json \<Rightarrow> error + jsnum" where
  "parseInt_json eng j =
     (if to_string_throws j then Inl (Error ''Cannot convert object to primitive value'')
      else Inr (parseInt_value eng j))"

definition parseFloat_json :: "engine \<Rightarrow> json \<Rightarrow> error + jsnum" where
  "parseFloat_json eng j =
     (if to_string_throws j then Inl (Error ''Cannot convert object to primitive value'')
      else Inr (parseFloat_value eng j))"

text \<open>The argument may be \<open>undefined\<close> (\<open>None\<close>), which renders as \<open>undefined\<close>.\<close>

definition parseInt :: "engine \<Rightarrow> json option \<Rightarrow> error + jsnum" where
  "parseInt eng v = (case v of None \<Rightarrow> Inr NaN | Some j \<Rightarrow> parseInt_json eng j)"

definition parseFloat :: "engine \<Rightarrow> json option \<Rightarrow> error + jsnum" where
  "parseFloat eng v = (case v of None \<Rightarrow> Inr NaN | Some j \<Rightarrow> parseFloat_json eng j)"

section \<open>WebsiteScraperService\<close>

text \<open>
  What \<open>cheerio\<close> reads from a fetched page once the script, style, noscript, iframe,
  nav, footer and header elements are removed: the texts and attributes that
  \<open>scrapeWebsite\<close> queries. An attribute of a missing element is \<open>undefined\<close>.
\<close>

record document =
  title_text :: string
  og_title :: "string option"
  first_h1_text :: string
  meta_description :: "string option"
  og_description :: "string option"
  body_text :: string
  heading_texts :: "string list"

text \<open>
  A request to the chat endpoint of the AI provider, as \<open>axios.post\<close> receives it.
\<close>

record ai_request =
  endpoint :: string
  req_model :: string
  system_message :: "string option"
  user_message :: string
  temperature :: "rat option"
  max_tokens :: nat
  json_object_format :: bool
  credential :: "string option"

text \<open>
  The surroundings of the program: \<open>axios.get\<close> on a URL (an error for a network
  failure, a timeout, a status of 400 or more, or a body above the size limit), the
  text that an \<open>axios.post\<close> to the AI provider yields (an error when the call or the
  reading of the answer throws), \<open>JSON.parse\<close> (\<open>None\<close> when it throws a
  \<open>SyntaxError\<close>), \<open>JSON.stringify\<close>, the clock, and the engine's tables.
\<close>

record runtime =
  axios_get :: "string \<Rightarrow> error + document"
  axios_post :: "ai_request \<Rightarrow> error + string"
  JSON_parse :: "string \<Rightarrow> json option"
  JSON_stringify :: "json \<Rightarrow> string"
  now_iso :: string
  engine :: engine

text \<open>The object returned by \<open>scrapeWebsite\<close> on success.\<close>

record scraped =
  url :: string
  title :: string
  description :: string
  headings :: string
  content :: string
  scrapedAt :: string

text \<open>
  The headings loop: a heading is pushed when its trimmed text is not empty and fewer
  than 10 headings have been collected.
\<close>

definition collect_headings :: "engine \<Rightarrow> string list \<Rightarrow> string list" where
  "collect_headings eng texts =
     foldl (\<lambda>hs el. let text = trim eng el in
                      if text \<noteq> [] \<and> length hs < 10 then hs @ [text] else hs) [] texts"

text \<open>
  \<open>scrapeWebsite(url)\<close>. The result is paired with the list of URLs for which a GET was
  issued. An empty URL or one that does not start with \<open>http\<close> is reported invalid and
  gives \<open>null\<close> (\<open>None\<close>) without any request; an error of the request is caught and
  gives \<open>null\<close> as well.
\<close>

definition scrapeWebsite :: "runtime \<Rightarrow> string \<Rightarrow> string list \<times> scraped option" where
  "scrapeWebsite rt u =
     (if u = [] \<or> \<not> prefix ''http'' u then ([], None)
      else
        (case axios_get rt u of
           Inl e \<Rightarrow> ([u], None)
         | Inr doc \<Rightarrow>
             (let title' = or_lit (or_str (or_str (Some (trim (engine rt) (title_text doc))) (og_title doc))
                                     (Some (trim (engine rt) (first_h1_text doc)))) [];
                  description' = or_lit (or_str (meta_description doc) (og_description doc)) [];
                  bodyText = take 5000 (trim (engine rt) (collapse_ws (engine rt) (body_text doc)));
                  headings' = collect_headings (engine rt) (heading_texts doc)
              in ([u], Some \<lparr> url = u, title = title', description = description',
                              headings = join '' | '' headings', content = bodyText,
                              scrapedAt = now_iso rt \<rparr>))))"

text \<open>
  \<open>scrapeMultiple(urls, concurrency)\<close>: the URLs are taken in windows of \<open>concurrency\<close>
  elements; every settled scrape with a truthy value is pushed, in the order of the
  window.
\<close>

definition scrapeMultiple :: "runtime \<Rightarrow> string list \<Rightarrow> int \<Rightarrow> scraped list option" where
  "scrapeMultiple rt urls concurrency =
     for_step (int (length urls)) concurrency
       (\<lambda>i results.
          let batch = js_slice urls i (i + concurrency);
              batchResults = map (\<lambda>u. snd (scrapeWebsite rt u)) batch
          in results @ List.map_filter (\<lambda>r. r) batchResults)
       0 []"

text \<open>
  \<open>extractTextForAnalysis(scrapedData)\<close>: a falsy argument (here \<open>None\<close>) gives the
  empty string; otherwise the four labelled parts are built, those of length at most 10
  are filtered out and the rest is joined by a blank line. The length tested by the
  filter is the length of the whole part, label included.
\<close>

definition extractTextForAnalysis :: "scraped option \<Rightarrow> string" where
  "extractTextForAnalysis scrapedData =
     (case scrapedData of
        None \<Rightarrow> []
      | Some d \<Rightarrow>
          (let parts =
             [''Title: '' @ title d,
              ''Description: '' @ description d,
              ''Key Sections: '' @ headings d,
              ''Content: '' @ take 2000 (content d)]
           in join (nl @ nl) (filter (\<lambda>p. length p > 10) parts)))"

section \<open>CompanyAnalysisService\<close>

text \<open>
  The environment variables read by the constructor, and the fields it sets. An
  environment variable that is not set is \<open>undefined\<close>.
\<close>

record process_env =
  OPENAI_API_KEY :: "string option"
  ANTHROPIC_API_KEY :: "string option"
  AI_PROVIDER :: "string option"
  AI_MODEL :: "string option"

record service =
  apiKey :: "string option"
  provider :: string
  model :: string

definition new_CompanyAnalysisService :: "process_env \<Rightarrow> service" where
  "new_CompanyAnalysisService e =
     \<lparr> apiKey = or_str (OPENAI_API_KEY e) (ANTHROPIC_API_KEY e),
       provider = or_lit (AI_PROVIDER e) ''openai'',
       model = or_lit (AI_MODEL e) ''gpt-4o-mini'' \<rparr>"

text \<open>
  The analysis result. \<open>isRelevant\<close> is \<open>true\<close>, \<open>false\<close> or \<open>null\<close> (\<open>None\<close>);
  \<open>keyMatches\<close> and \<open>concerns\<close> are absent (\<open>None\<close>) from the fallback objects.
\<close>

record verdict =
  isRelevant :: "bool option"
  confidence :: jsnum
  score :: jsnum
  reasoning :: json
  keyMatches :: "json option"
  concerns :: "json option"

text \<open>
  A lead or company object: the fields that the services and the controller read or
  add. A field that the object does not have is \<open>undefined\<close> (\<open>None\<close>).
\<close>

record lead =
  name :: "string option"
  companyName :: "string option"
  industry :: "string option"
  location :: "string option"
  estimated_num_employees :: "string option"
  short_description :: "string option"
  website :: "string option"
  website_url :: "string option"
  domain :: "string option"
  websiteContent :: "string option"
  websiteScraped :: "bool option"
  lead_scrapedAt :: "string option"
  aiAnalysis :: "verdict option"
  relevanceScore :: "jsnum option"

definition dq :: string where
  "dq = [CHR 0x22]"

definition buildAnalysisPrompt :: "lead \<Rightarrow> string \<Rightarrow> string \<Rightarrow> string" where
  "buildAnalysisPrompt company websiteContent' topic =
     ''You are a B2B sales analyst. Analyze if this company matches the target profile.'' @ nl @ nl @
     ''**Target Profile/Topic:**'' @ nl @ topic @ nl @ nl @
     ''**Company Information:**'' @ nl @
     ''Name: '' @ or_lit (name company) ''Unknown'' @ nl @
     ''Industry: '' @ or_lit (industry company) ''Unknown'' @ nl @
     ''Location: '' @ or_lit (location company) ''Unknown'' @ nl @
     ''Size: '' @ or_lit (estimated_num_employees company) ''Unknown'' @ '' employees'' @ nl @
     ''Description: '' @ or_lit (short_description company) ''N/A'' @ nl @ nl @
     ''**Website Content Analysis:**'' @ nl @
     (if websiteContent' \<noteq> [] then take 3000 websiteContent'
      else ''No website content available'') @ nl @ nl @
     ''**Task:**'' @ nl @
     ''Analyze if this company is a good fit for the target profile. Consider:'' @ nl @
     ''1. Does their business align with the target topic/industry?'' @ nl @
     ''2. Do they have relevant products/services?'' @ nl @
     ''3. Are they likely to need the solution implied by the target profile?'' @ nl @
     ''4. Does their company size/type match the ICP?'' @ nl @ nl @
     ''**Response Format (JSON only):**'' @ nl @
     ''{'' @ nl @
     ''  '' @ dq @ ''isRelevant'' @ dq @ '': true/false,'' @ nl @
     ''  '' @ dq @ ''confidence'' @ dq @ '': 0-100,'' @ nl @
     ''  '' @ dq @ ''score'' @ dq @ '': 0-10,'' @ nl @
     ''  '' @ dq @ ''reasoning'' @ dq @ '': '' @ dq @ ''Brief explanation (2-3 sentences)'' @ dq @ '','' @ nl @
     ''  '' @ dq @ ''keyMatches'' @ dq @ '': ['' @ dq @ ''match1'' @ dq @ '', '' @ dq @ ''match2'' @ dq @ ''],'' @ nl @
     ''  '' @ dq @ ''concerns'' @ dq @ '': ['' @ dq @ ''concern1'' @ dq @ '', '' @ dq @ ''concern2'' @ dq @ '']'' @ nl @
     ''}''"

definition callOpenAI :: "runtime \<Rightarrow> service \<Rightarrow> string \<Rightarrow> error + string" where
  "callOpenAI rt svc prompt =
     axios_post rt
       \<lparr> endpoint = ''https://api.openai.com/v1/chat/completions'',
         req_model = model svc,
         system_message = Some ''You are a B2B sales analyst. Respond only with valid JSON.'',
         user_message = prompt,
         temperature = Some (3 / 10),
         max_tokens = 500,
         json_object_format = True,
         credential = apiKey svc \<rparr>"

definition callAnthropic :: "runtime \<Rightarrow> service \<Rightarrow> string \<Rightarrow> error + string" where
  "callAnthropic rt svc prompt =
     axios_post rt
       \<lparr> endpoint = ''https://api.anthropic.com/v1/messages'',
         req_model = or_lit (Some (model svc)) ''claude-3-haiku-20240307'',
         system_message = None,
         user_message = prompt,
         temperature = None,
         max_tokens = 500,
         json_object_format = False,
         credential = apiKey svc \<rparr>"

definition callAI :: "runtime \<Rightarrow> service \<Rightarrow> string \<Rightarrow> error + string" where
  "callAI rt svc prompt =
     (if provider svc = ''openai'' then callOpenAI rt svc prompt
      else if provider svc = ''anthropic'' then callAnthropic rt svc prompt
      else Inl (Error ''Unsupported AI provider''))"

definition callAIFlexible ::
  "runtime \<Rightarrow> service \<Rightarrow> string \<Rightarrow> string \<Rightarrow> rat \<Rightarrow> error + string" where
  "callAIFlexible rt svc prompt systemPrompt temp =
     (if provider svc = ''openai'' then
        axios_post rt
          \<lparr> endpoint = ''https://api.openai.com/v1/chat/completions'',
            req_model = model svc,
            system_message = (if systemPrompt \<noteq> [] then Some systemPrompt else None),
            user_message = prompt,
            temperature = Some temp,
            max_tokens = 2000,
            json_object_format = False,
            credential = apiKey svc \<rparr>
      else if provider svc = ''anthropic'' then
        axios_post rt
          \<lparr> endpoint = ''https://api.anthropic.com/v1/messages'',
            req_model = or_lit (Some (model svc)) ''claude-3-haiku-20240307'',
            system_message = (if systemPrompt \<noteq> [] then Some systemPrompt else None),
            user_message = prompt,
            temperature = Some temp,
            max_tokens = 2000,
            json_object_format = False,
            credential = apiKey svc \<rparr>
      else Inl (Error ''Unsupported AI provider''))"

text \<open>\<open>v || d\<close> on a parsed value that may be \<open>undefined\<close>.\<close>

definition or_json :: "json option \<Rightarrow> json \<Rightarrow> json" where
  "or_json v d = (case v of None \<Rightarrow> d | Some j \<Rightarrow> if truthy j then j else d)"

definition bind_err :: "error + 'a \<Rightarrow> ('a \<Rightarrow> error + 'b) \<Rightarrow> error + 'b" where
  "bind_err m f = (case m of Inl e \<Rightarrow> Inl e | Inr x \<Rightarrow> f x)"

text \<open>
  The body of the \<open>try\<close> block of \<open>parseAnalysisResponse\<close> after \<open>JSON.parse\<close>: the six
  properties are read in order and coerced. A property read on \<open>null\<close> throws, and so
  does \<open>parseInt\<close> or \<open>parseFloat\<close> on a value that cannot be converted to a string.
\<close>

definition read_verdict :: "engine \<Rightarrow> json \<Rightarrow> error + verdict" where
  "read_verdict eng parsed =
     bind_err (get_prop parsed ''isRelevant'') (\<lambda>r.
     bind_err (get_prop parsed ''confidence'') (\<lambda>c.
     bind_err (parseInt eng c) (\<lambda>ci.
     bind_err (get_prop parsed ''score'') (\<lambda>sc.
     bind_err (parseFloat eng sc) (\<lambda>sf.
     bind_err (get_prop parsed ''reasoning'') (\<lambda>re.
     bind_err (get_prop parsed ''keyMatches'') (\<lambda>k.
     bind_err (get_prop parsed ''concerns'') (\<lambda>co.
       Inr \<lparr> isRelevant = Some (r = Some (JBool True)),
             confidence = or_zero (Some ci),
             score = or_zero (Some sf),
             reasoning = or_json re (JStr []),
             keyMatches = Some (or_json k (JArr [])),
             concerns = Some (or_json co (JArr [])) \<rparr>))))))))"

definition parse_failed :: verdict where
  "parse_failed =
     \<lparr> isRelevant = None, confidence = Fin 0, score = Fin 0,
       reasoning = JStr ''Failed to parse AI response'',
       keyMatches = None, concerns = None \<rparr>"

text \<open>
  \<open>parseAnalysisResponse(response)\<close>: a \<open>SyntaxError\<close> of \<open>JSON.parse\<close> and a
  \<open>TypeError\<close> of a property read or of a conversion are caught and give the fallback
  object.
\<close>

definition parseAnalysisResponse :: "runtime \<Rightarrow> string \<Rightarrow> verdict" where
  "parseAnalysisResponse rt response =
     (case JSON_parse rt response of
        None \<Rightarrow> parse_failed
      | Some parsed \<Rightarrow>
          (case read_verdict (engine rt) parsed of Inl e \<Rightarrow> parse_failed | Inr v \<Rightarrow> v))"

definition not_configured :: verdict where
  "not_configured =
     \<lparr> isRelevant = None, confidence = Fin 0, score = Fin 0,
       reasoning = JStr ''AI analysis not configured'',
       keyMatches = None, concerns = None \<rparr>"

definition analysis_failed :: "error \<Rightarrow> verdict" where
  "analysis_failed e =
     \<lparr> isRelevant = None, confidence = Fin 0, score = Fin 0,
       reasoning = JStr (''Analysis failed: '' @ message e),
       keyMatches = None, concerns = None \<rparr>"

text \<open>
  \<open>analyzeCompanyRelevance(company, websiteContent, topic)\<close>. The result is a sum so
  that an exception leaving the function would be the value \<open>Inl\<close>.
\<close>

definition analyzeCompanyRelevance ::
  "runtime \<Rightarrow> service \<Rightarrow> lead \<Rightarrow> string \<Rightarrow> string \<Rightarrow> error + verdict" where
  "analyzeCompanyRelevance rt svc company websiteContent' topic =
     (if falsy (apiKey svc) then Inr not_configured
      else
        (let prompt = buildAnalysisPrompt company websiteContent' topic in
         case callAI rt svc prompt of
           Inl e \<Rightarrow> Inr (analysis_failed e)
         | Inr response \<Rightarrow> Inr (parseAnalysisResponse rt response)))"

text \<open>
  \<open>Array.prototype.sort(cmp)\<close>: a stable sort. An element stays in front of the
  elements that the comparator does not put before it; a comparator result that is
  \<open>NaN\<close> counts as 0.
\<close>

fun positive :: "jsnum \<Rightarrow> bool" where
  "positive (Fin q) = (0 < q)"
| "positive PosInf = True"
| "positive _ = False"

fun insert_sorted :: "('a \<Rightarrow> 'a \<Rightarrow> jsnum) \<Rightarrow> 'a \<Rightarrow> 'a list \<Rightarrow> 'a list" where
  "insert_sorted cmp x [] = [x]"
| "insert_sorted cmp x (y # ys) =
     (if positive (cmp x y) then y # insert_sorted cmp x ys else x # y # ys)"

definition js_sort :: "('a \<Rightarrow> 'a \<Rightarrow> jsnum) \<Rightarrow> 'a list \<Rightarrow> 'a list" where
  "js_sort cmp xs = foldr (insert_sorted cmp) xs []"

text \<open>A number that may be \<open>undefined\<close>, used in arithmetic.\<close>

definition to_number :: "jsnum option \<Rightarrow> jsnum" where
  "to_number v = (case v of None \<Rightarrow> NaN | Some x \<Rightarrow> x)"

text \<open>The loop of \<open>analyzeCompanies\<close>: one analysis per company, in order.\<close>

fun analyze_each :: "runtime \<Rightarrow> service \<Rightarrow> string \<Rightarrow> lead list \<Rightarrow> error + lead list" where
  "analyze_each rt svc topic [] = Inr []"
| "analyze_each rt svc topic (company # rest) =
     bind_err (analyzeCompanyRelevance rt svc company (or_lit (websiteContent company) []) topic)
       (\<lambda>analysis.
          bind_err (analyze_each rt svc topic rest)
            (\<lambda>results. Inr (company\<lparr> aiAnalysis := Some analysis,
                                      relevanceScore := Some (score analysis) \<rparr> # results)))"

definition analyzeCompanies :: "runtime \<Rightarrow> service \<Rightarrow> lead list \<Rightarrow> string \<Rightarrow> error + lead list" where
  "analyzeCompanies rt svc companies topic =
     bind_err (analyze_each rt svc topic companies)
       (\<lambda>results.
          Inr (js_sort (\<lambda>a b. js_sub (to_number (relevanceScore b)) (to_number (relevanceScore a)))
                 results))"

definition topic_system_prompt :: "string \<Rightarrow> string" where
  "topic_system_prompt topic =
     ''You are an AI company analyst. Your task is to determine if a company's website indicates that the company is related to a specific topic/industry.'' @ nl @ nl @
     ''Analyze the website content and determine if the company operates in or is related to the topic: '' @ dq @ topic @ dq @ ''.'' @ nl @ nl @
     ''Consider:'' @ nl @
     ''- Company description and services'' @ nl @
     ''- Industry keywords and terminology'' @ nl @
     ''- Products or services offered'' @ nl @
     ''- Company focus and expertise'' @ nl @ nl @
     ''Respond with ONLY '' @ dq @ ''YES'' @ dq @ '' if the company is clearly related to the topic, or '' @ dq @ ''NO'' @ dq @ '' if it is not related.'' @ nl @ nl @
     ''Be strict - only return YES if there is clear evidence the company is related.''"

definition topic_user_prompt :: "string \<Rightarrow> string \<Rightarrow> string \<Rightarrow> string" where
  "topic_user_prompt websiteUrl content' topic =
     ''Website URL: '' @ websiteUrl @ nl @
     ''Topic: '' @ topic @ nl @ nl @
     ''Website Content:'' @ nl @ content' @ nl @ nl @
     ''Is this company related to '' @ dq @ topic @ dq @ ''? Answer YES or NO only.''"

text \<open>
  \<open>checkCompanyTopicRelation(websiteUrl, websiteContent, topic)\<close>. Empty or blank
  content gives \<open>false\<close> without a call; an error of the call is caught and gives
  \<open>false\<close>; otherwise the answer is whether the trimmed, upper-cased response includes
  \<open>YES\<close>.
\<close>

definition checkCompanyTopicRelation ::
  "runtime \<Rightarrow> service \<Rightarrow> string \<Rightarrow> string \<Rightarrow> string \<Rightarrow> error + bool" where
  "checkCompanyTopicRelation rt svc websiteUrl websiteContent' topic =
     (if websiteContent' = [] \<or> trim (engine rt) websiteContent' = [] then Inr False
      else
        (let maxLength = 3000;
             content' = (if length websiteContent' > maxLength
                         then take maxLength websiteContent' @ ''...'' else websiteContent');
             systemPrompt = topic_system_prompt topic;
             userPrompt = topic_user_prompt websiteUrl content' topic
         in case callAIFlexible rt svc userPrompt systemPrompt 0 of
              Inl e \<Rightarrow> Inr False
            | Inr response \<Rightarrow>
                (let answer = toUpperCase (engine rt) (trim (engine rt) response)
                 in Inr (sublist ''YES'' answer))))"

text \<open>The object that \<open>processCompany\<close> returns; \<open>isRelated\<close> is \<open>true\<close>, \<open>false\<close> or \<open>null\<close>.\<close>

record unit_of_work =
  company :: lead
  index :: int
  isRelated :: "bool option"

text \<open>
  \<open>processCompany(company, index)\<close> inside \<open>filterCompaniesByTopicParallel\<close>. A
  company without a URL and a page that could not be scraped give \<open>null\<close>; so would an
  exception of the topic check, which the \<open>catch\<close> turns into \<open>null\<close>.
\<close>

definition processCompany ::
  "runtime \<Rightarrow> service \<Rightarrow> string \<Rightarrow> lead \<Rightarrow> int \<Rightarrow> unit_of_work" where
  "processCompany rt svc topic c i =
     (let websiteUrl = or_str (or_str (website c) (website_url c)) (domain c) in
      if falsy websiteUrl then \<lparr> company = c, index = i, isRelated = None \<rparr>
      else
        (let fullUrl = (if \<not> prefix ''http://'' (the websiteUrl)
                           \<and> \<not> prefix ''https://'' (the websiteUrl)
                        then ''https://'' @ the websiteUrl else the websiteUrl)
         in case snd (scrapeWebsite rt fullUrl) of
              None \<Rightarrow> \<lparr> company = c, index = i, isRelated = None \<rparr>
            | Some sc \<Rightarrow>
                (let websiteContent' = extractTextForAnalysis (Some sc) in
                 case checkCompanyTopicRelation rt svc fullUrl websiteContent' topic of
                   Inl e \<Rightarrow> \<lparr> company = c, index = i, isRelated = None \<rparr>
                 | Inr r \<Rightarrow> \<lparr> company = c, index = i, isRelated = Some r \<rparr>)))"


text \<open>A social post: its \<open>id\<close> (any value, possibly \<open>undefined\<close>) and its text fields.\<close>

record post =
  post_id :: "json option"
  post_caption :: "string option"
  post_text :: "string option"
  post_content :: "string option"

definition posts_system_prompt :: "string \<Rightarrow> string" where
  "posts_system_prompt topic =
     ''You are an AI data filter. The user is searching for posts related to the following keywords and concepts: ''
     @ [CHR 0x27] @ topic @ [CHR 0x27] @ ''.'' @ nl @ nl @
     ''You will be given a list of JSON objects, each with an '' @ dq @ ''id'' @ dq @ '' and a '' @ dq @ ''text'' @ dq @ ''.'' @ nl @
     ''Your task is to return a JSON array containing ONLY the '' @ dq @ ''id'' @ dq @ '' numbers (as integers) of the posts that are clearly and explicitly relevant to any of those topics.'' @ nl @ nl @
     ''Example:'' @ nl @
     ''User topic: '' @ dq @ ''business trips, attending conference, work travel'' @ dq @ nl @
     ''Data: ['' @ nl @
     ''  {'' @ dq @ ''id'' @ dq @ '': 1, '' @ dq @ ''text'' @ dq @ '': '' @ dq @ ''Excited to be at #GDC in San Francisco this week!'' @ dq @ ''},'' @ nl @
     ''  {'' @ dq @ ''id'' @ dq @ '': 2, '' @ dq @ ''text'' @ dq @ '': '' @ dq @ ''Just posted our Q3 earnings, great results!'' @ dq @ ''},'' @ nl @
     ''  {'' @ dq @ ''id'' @ dq @ '': 3, '' @ dq @ ''text'' @ dq @ '': '' @ dq @ ''Packing my bags for the London sales meeting!'' @ dq @ ''}'' @ nl @
     '']'' @ nl @ nl @
     ''Your response: [1, 3]''"

text \<open>
  \<open>indexOf\<close> and \<open>lastIndexOf\<close> of a character (\<open>-1\<close> when it does not occur), and
  \<open>substring(a, b)\<close>, which clamps its arguments and swaps them when \<open>a > b\<close>.
\<close>

definition indexOf :: "string \<Rightarrow> char \<Rightarrow> int" where
  "indexOf s c = (if c \<in> set s then int (length (takeWhile (\<lambda>x. x \<noteq> c) s)) else - 1)"

definition lastIndexOf :: "string \<Rightarrow> char \<Rightarrow> int" where
  "lastIndexOf s c =
     (if c \<in> set s then int (length s) - 1 - int (length (takeWhile (\<lambda>x. x \<noteq> c) (rev s)))
      else - 1)"

definition substring :: "string \<Rightarrow> int \<Rightarrow> int \<Rightarrow> string" where
  "substring s a b =
     (let n = int (length s);
          a' = max 0 (min a n);
          b' = max 0 (min b n);
          lo = min a' b';
          hi = max a' b'
      in take (nat (hi - lo)) (drop (nat lo) s))"

text \<open>
  Equality of \<open>Set.prototype.has\<close>: primitive values are compared by value; an array
  or object parsed from a response is never the same object as a post's \<open>id\<close>.
\<close>

fun same_value_zero :: "json \<Rightarrow> json \<Rightarrow> bool" where
  "same_value_zero JNull JNull = True"
| "same_value_zero (JBool a) (JBool b) = (a = b)"
| "same_value_zero (JNum a) (JNum b) = (a = b)"
| "same_value_zero (JStr a) (JStr b) = (a = b)"
| "same_value_zero _ _ = False"

definition set_has :: "json list \<Rightarrow> json option \<Rightarrow> bool" where
  "set_has ids v = (case v of None \<Rightarrow> False | Some j \<Rightarrow> list_ex (\<lambda>x. same_value_zero x j) ids)"

definition simplify_post :: "post \<Rightarrow> json" where
  "simplify_post p =
     JObj ((case post_id p of None \<Rightarrow> [] | Some i \<Rightarrow> [(''id'', i)]) @
           [(''text'', JStr (or_lit (or_str (or_str (post_caption p) (post_text p))
                                       (post_content p)) []))])"

text \<open>
  One round of the chunk loop of \<open>filterPostsByTopic\<close>: the ids of the array found
  between the first \<open>[\<close> and the last \<open>]\<close> of the response are added to the set; an
  error of the call or of \<open>JSON.parse\<close> is caught and adds nothing.
\<close>

definition filter_chunk ::
  "runtime \<Rightarrow> service \<Rightarrow> string \<Rightarrow> post list \<Rightarrow> json list \<Rightarrow> json list" where
  "filter_chunk rt svc systemPrompt chunk relevantPostIds =
     (let simplifiedChunk = map simplify_post chunk;
          userPrompt = ''Data:'' @ nl @ JSON_stringify rt (JArr simplifiedChunk)
      in case callAIFlexible rt svc userPrompt systemPrompt 0 of
           Inl e \<Rightarrow> relevantPostIds
         | Inr response \<Rightarrow>
             (let startIndex = indexOf response CHR ''['';
                  endIndex = lastIndexOf response CHR '']''
              in if startIndex \<noteq> - 1 \<and> endIndex \<noteq> - 1 then
                   (case JSON_parse rt (substring response startIndex (endIndex + 1)) of
                      None \<Rightarrow> relevantPostIds
                    | Some (JArr ids) \<Rightarrow> relevantPostIds @ ids
                    | Some _ \<Rightarrow> relevantPostIds)
                 else relevantPostIds))"

text \<open>
  \<open>filterPostsByTopic(posts, topic, chunkSize)\<close>. Without an API key, or with no
  posts, the posts are returned as they are.
\<close>

definition filterPostsByTopic ::
  "runtime \<Rightarrow> service \<Rightarrow> post list \<Rightarrow> string \<Rightarrow> int \<Rightarrow> post list option" where
  "filterPostsByTopic rt svc posts topic chunkSize =
     (if falsy (apiKey svc) \<or> posts = [] then Some posts
      else
        (case for_step (int (length posts)) chunkSize
                (\<lambda>i relevantPostIds.
                   filter_chunk rt svc (posts_system_prompt topic)
                     (js_slice posts i (i + chunkSize)) relevantPostIds)
                0 [] of
           None \<Rightarrow> None
         | Some relevantPostIds \<Rightarrow>
             Some (filter (\<lambda>p. set_has relevantPostIds (post_id p)) posts)))"

section \<open>LeadEnrichmentController\<close>

text \<open>
  The body of the request to \<open>enrichLeads\<close>. \<open>leads\<close> is \<open>None\<close> when the field is
  missing or not an array; the other fields are \<open>None\<close> when missing.
\<close>

record enrich_request =
  leads :: "lead list option"
  topic :: "string option"
  icp_description :: "string option"
  min_relevance_score :: "json option"
  enable_website_scraping :: "bool option"
  enable_ai_analysis :: "bool option"

record metadata =
  total_input :: nat
  total_processed :: nat
  total_enriched :: nat
  website_scraping_enabled :: bool
  ai_analysis_enabled :: bool
  meta_min_relevance_score :: jsnum
  meta_topic :: string

datatype response =
    Status400 string string
  | Json200 "lead list" metadata
  | Status500 string string

text \<open>The URL of a lead as the controller resolves it.\<close>

definition lead_url :: "lead \<Rightarrow> string option" where
  "lead_url l = or_str (or_str (website l) (domain l)) (website_url l)"

text \<open>The mapping of the scraped pages back to the leads.\<close>

definition attach_scraped :: "scraped list \<Rightarrow> lead \<Rightarrow> lead" where
  "attach_scraped scrapedData l =
     (let websiteUrl = lead_url l;
          found = find (\<lambda>s. Some (url s) = websiteUrl) scrapedData
      in l\<lparr> websiteContent :=
               (case found of None \<Rightarrow> None | Some s \<Rightarrow> Some (extractTextForAnalysis (Some s))),
             websiteScraped := Some (found \<noteq> None),
             lead_scrapedAt := (case found of None \<Rightarrow> None | Some s \<Rightarrow> Some (scrapedAt s)) \<rparr>)"

text \<open>
  \<open>enrichLeads(req, res)\<close>: the response that is sent. The result is \<open>None\<close> if a loop
  does not end. An exception of the analysis is caught and answered with status 500, and
  so is a \<open>TypeError\<close> of \<open>parseFloat(min_relevance_score)\<close>, which is evaluated in the
  filter when analysis is on and in the metadata of the answer in any case.
\<close>

definition enrichLeads :: "runtime \<Rightarrow> process_env \<Rightarrow> enrich_request \<Rightarrow> response option" where
  "enrichLeads rt env req =
     (let min_score = (case min_relevance_score req of None \<Rightarrow> JNum (Fin 5) | Some j \<Rightarrow> j);
          scraping = (case enable_website_scraping req of None \<Rightarrow> True | Some b \<Rightarrow> b);
          analysis = (case enable_ai_analysis req of None \<Rightarrow> True | Some b \<Rightarrow> b)
      in
      case leads req of
        None \<Rightarrow> Some (Status400 ''Invalid request'' ''leads array is required and must not be empty'')
      | Some ls \<Rightarrow>
          if ls = [] then
            Some (Status400 ''Invalid request'' ''leads array is required and must not be empty'')
          else if falsy (topic req) \<and> falsy (icp_description req) then
            Some (Status400 ''Missing required field''
                    (''Either '' @ dq @ ''topic'' @ dq @ '' or '' @ dq @ ''icp_description'' @ dq
                     @ '' is required for enrichment''))
          else
            (let targetTopic = the (or_str (topic req) (icp_description req));
                 maxLeadsToProcess = min (length ls) 50;
                 enrichedLeads0 = js_slice ls 0 (int maxLeadsToProcess);
                 urls = filter (\<lambda>u. \<not> falsy u) (map lead_url enrichedLeads0);
                 step1 =
                   (if scraping \<and> urls \<noteq> [] then
                      (case scrapeMultiple rt (map the urls) 5 of
                         None \<Rightarrow> None
                       | Some scrapedData \<Rightarrow> Some (map (attach_scraped scrapedData) enrichedLeads0))
                    else Some enrichedLeads0)
             in case step1 of
                  None \<Rightarrow> None
                | Some enrichedLeads1 \<Rightarrow>
                    (case (if analysis
                           then analyzeCompanies rt (new_CompanyAnalysisService env)
                                  enrichedLeads1 targetTopic
                           else Inr enrichedLeads1) of
                       Inl e \<Rightarrow> Some (Status500 ''Enrichment failed'' (message e))
                     | Inr enrichedLeads2 \<Rightarrow>
                         (case parseFloat (engine rt) (Some min_score) of
                            Inl e \<Rightarrow> Some (Status500 ''Enrichment failed'' (message e))
                          | Inr threshold \<Rightarrow>
                              (let filteredLeads =
                                     filter (\<lambda>l. \<not> analysis \<or>
                                                  js_ge (or_zero (relevanceScore l)) threshold)
                                       enrichedLeads2;
                                   sorted =
                                     js_sort (\<lambda>a b. js_sub (or_zero (relevanceScore b))
                                                       (or_zero (relevanceScore a)))
                                       filteredLeads
                               in Some (Json200 sorted
                                          \<lparr> total_input = length ls,
                                            total_processed = maxLeadsToProcess,
                                            total_enriched = length sorted,
                                            website_scraping_enabled = scraping,
                                            ai_analysis_enabled = analysis,
                                            meta_min_relevance_score = threshold,
                                            meta_topic = targetTopic \<rparr>))))))"

section \<open>WebsiteAnalysisCache\<close>

text \<open>
  A row of the table \<open>website_analysis_cache\<close>. Times are microseconds. The table has
  one row per pair of domain and topic (the conflict target of the upsert), so the table
  is a map from that pair.
\<close>

record cache_row =
  row_domain :: string
  row_topic :: string
  analysis_data :: string
  relevance_score :: jsnum
  hit_count :: int
  last_accessed_at :: int
  created_at :: int
  updated_at :: int

type_synonym cache_table = "string \<times> string \<Rightarrow> cache_row option"

definition seven_days :: int where
  "seven_days = 7 * 24 * 60 * 60 * 1000000"

text \<open>
  Modelled from the spec: the declaration of the table \<open>website_analysis_cache\<close> is
  not among the sources. The columns \<open>created_at\<close> and \<open>updated_at\<close>, which the
  \<open>INSERT\<close> does not list, take the time of the insertion in a new row, so that the
  freshness window of an entry starts when the entry is first written.
\<close>

definition inserted_timestamps :: "int \<Rightarrow> int \<times> int" where
  "inserted_timestamps now = (now, now)"

text \<open>
  \<open>upsert({domain, analysisData, relevanceScore, topic})\<close> at the time \<open>now\<close>: the new
  table and the returned row. On a conflict the analysis, the score, the hit count and
  the access and update times are set; \<open>created_at\<close> is not in the \<open>SET\<close> list and stays.
\<close>

definition upsert ::
  "runtime \<Rightarrow> int \<Rightarrow> string \<Rightarrow> json \<Rightarrow> jsnum \<Rightarrow> string \<Rightarrow> cache_table \<Rightarrow> cache_row \<times> cache_table" where
  "upsert rt now dmn analysisData relevanceScore' tpc tbl =
     (let row =
        (case tbl (dmn, tpc) of
           None \<Rightarrow>
             \<lparr> row_domain = dmn, row_topic = tpc,
               analysis_data = JSON_stringify rt analysisData,
               relevance_score = relevanceScore',
               hit_count = 1, last_accessed_at = now,
               created_at = fst (inserted_timestamps now),
               updated_at = snd (inserted_timestamps now) \<rparr>
         | Some old \<Rightarrow>
             old\<lparr> analysis_data := JSON_stringify rt analysisData,
                  relevance_score := relevanceScore',
                  hit_count := hit_count old + 1,
                  last_accessed_at := now,
                  updated_at := now \<rparr>)
      in (row, tbl((dmn, tpc) := Some row)))"

text \<open>
  \<open>findByDomain(domain, topic)\<close> at the time \<open>now\<close>: the row selected (\<open>null\<close> is
  \<open>None\<close>) and the new table. The row is selected when its \<open>created_at\<close> is later than
  seven days before \<open>now\<close>; a selected row has its access statistics updated. The row
  returned is the one selected, before that update.
\<close>

definition findByDomain ::
  "int \<Rightarrow> string \<Rightarrow> string \<Rightarrow> cache_table \<Rightarrow> cache_row option \<times> cache_table" where
  "findByDomain now dmn tpc tbl =
     (case tbl (dmn, tpc) of
        None \<Rightarrow> (None, tbl)
      | Some row \<Rightarrow>
          if created_at row > now - seven_days then
            (Some row,
             tbl((dmn, tpc) := Some (row\<lparr> hit_count := hit_count row + 1,
                                          last_accessed_at := now \<rparr>)))
          else (None, tbl))"

section \<open>Definitions used in the statements\<close>

text \<open>
  The Fetcher as the specification words it: a URL without an HTTP(S) scheme gets
  \<open>https://\<close> in front and is then fetched.
\<close>

definition fetch_normalized :: "runtime \<Rightarrow> string \<Rightarrow> string list \<times> scraped option" where
  "fetch_normalized rt u =
     scrapeWebsite rt
       (if \<not> prefix ''http://'' u \<and> \<not> prefix ''https://'' u then ''https://'' @ u else u)"

text \<open>
  The ranges that the specification gives for the numeric fields of a verdict.
\<close>

definition in_documented_ranges :: "verdict \<Rightarrow> bool" where
  "in_documented_ranges v =
     (js_ge (confidence v) (Fin 0) \<and> js_ge (Fin 100) (confidence v) \<and>
      js_ge (score v) (Fin 0) \<and> js_ge (Fin 10) (score v))"

text \<open>
  A text contains \<open>YES\<close> case-insensitively when some three consecutive characters of
  it are a \<open>y\<close>, an \<open>e\<close> and an \<open>s\<close>, each in either case.
\<close>

fun contains_yes :: "string \<Rightarrow> bool" where
  "contains_yes (a # b # c # r) =
     (((a = CHR ''y'' \<or> a = CHR ''Y'') \<and>
       (b = CHR ''e'' \<or> b = CHR ''E'') \<and>
       (c = CHR ''s'' \<or> c = CHR ''S''))
      \<or> contains_yes (b # c # r))"
| "contains_yes _ = False"

text \<open>
  The extractor as the specification words it: a labelled section is dropped when its
  value (the text after the label) has at most 10 characters.
\<close>

definition extractText_by_value_length :: "scraped option \<Rightarrow> string" where
  "extractText_by_value_length scrapedData =
     (case scrapedData of
        None \<Rightarrow> []
      | Some d \<Rightarrow>
          (let sections =
             [(''Title: '', title d),
              (''Description: '', description d),
              (''Key Sections: '', headings d),
              (''Content: '', take 2000 (content d))]
           in join (nl @ nl)
                (map (\<lambda>(l, v). l @ v) (filter (\<lambda>(l, v). length v > 10) sections))))"

text \<open>
  What a field must be for \<open>parseInt\<close> and \<open>parseFloat\<close> to find no number in it,
  whatever its content: missing, \<open>null\<close>, a boolean, an empty array, or an object
  without an own key \<open>toString\<close>.
\<close>

fun not_numeric :: "json option \<Rightarrow> bool" where
  "not_numeric None = True"
| "not_numeric (Some JNull) = True"
| "not_numeric (Some (JBool b)) = True"
| "not_numeric (Some (JObj kvs)) = (map_of (rev kvs) ''toString'' = None)"
| "not_numeric (Some (JArr [])) = True"
| "not_numeric _ = False"

text \<open>
  The call that \<open>checkCompanyTopicRelation\<close> makes for content that is not blank.
\<close>

definition topic_call ::
  "runtime \<Rightarrow> service \<Rightarrow> string \<Rightarrow> string \<Rightarrow> string \<Rightarrow> error + string" where
  "topic_call rt svc websiteUrl websiteContent' tpc =
     callAIFlexible rt svc
       (topic_user_prompt websiteUrl
          (if length websiteContent' > 3000 then take 3000 websiteContent' @ ''...''
           else websiteContent') tpc)
       (topic_system_prompt tpc) 0"

text \<open>
  The URL that \<open>processCompany\<close> passes to the scraper: none when the company has no
  website field, otherwise the field with \<open>https://\<close> in front unless it starts with
  \<open>http://\<close> or \<open>https://\<close>.
\<close>

definition company_full_url :: "lead \<Rightarrow> string option" where
  "company_full_url c =
     (let w = or_str (or_str (website c) (website_url c)) (domain c) in
      if falsy w then None
      else Some (if \<not> prefix ''http://'' (the w) \<and> \<not> prefix ''https://'' (the w)
                 then ''https://'' @ the w else the w))"

text \<open>The fields of a lead that come with the request and that enrichment leaves alone.\<close>

definition input_fields ::
  "lead \<Rightarrow> (string option \<times> string option \<times> string option \<times> string option \<times> string option)
           \<times> (string option \<times> string option \<times> string option \<times> string option)" where
  "input_fields l =
     ((name l, companyName l, industry l, location l, estimated_num_employees l),
      (short_description l, website l, website_url l, domain l))"

section \<open>Sample inputs\<close>

definition sample_document :: document where
  "sample_document =
     \<lparr> title_text = '' Acme Cloud '', og_title = None, first_h1_text = ''Welcome'',
       meta_description = Some ''Managed Kubernetes for teams'', og_description = None,
       body_text = ''We run  AWS and Kubernetes.'',
       heading_texts = [''Products'', '' '', ''DevOps''] \<rparr>"

definition over_range_response :: string where
  "over_range_response =
     ''{'' @ dq @ ''isRelevant'' @ dq @ '':true,'' @ dq @ ''confidence'' @ dq @ '':150,''
     @ dq @ ''score'' @ dq @ '':15}''"

text \<open>The response \<open>{"confidence":{"toString":1},"score":9}\<close>.\<close>

definition unconvertible_response :: string where
  "unconvertible_response =
     ''{'' @ dq @ ''confidence'' @ dq @ '':{'' @ dq @ ''toString'' @ dq @ '':1},''
     @ dq @ ''score'' @ dq @ '':9}''"

definition null_fields_response :: string where
  "null_fields_response =
     ''{'' @ dq @ ''confidence'' @ dq @ '':null,'' @ dq @ ''score'' @ dq @ '':null}''"

definition sample_parse :: "string \<Rightarrow> json option" where
  "sample_parse s =
     (if s = over_range_response then
        Some (JObj [(''isRelevant'', JBool True), (''confidence'', JNum (Fin 150)),
                    (''score'', JNum (Fin 15))])
      else if s = null_fields_response then
        Some (JObj [(''confidence'', JNull), (''score'', JNull)])
      else if s = unconvertible_response then
        Some (JObj [(''confidence'', JObj [(''toString'', JNum (Fin 1))]),
                    (''score'', JNum (Fin 9))])
      else if s = ''[1, 3]'' then Some (JArr [JNum (Fin 1), JNum (Fin 3)])
      else None)"

text \<open>
  An engine for ASCII text: no other white space, other text left as it is by
  \<open>toUpperCase\<close>, and every decimal value denoting itself.
\<close>

definition ascii_engine :: engine where
  "ascii_engine =
     \<lparr> white_space_other = (\<lambda>c. False), upper_case_other = (\<lambda>s. s), to_double = Fin \<rparr>"

text \<open>
  An engine that knows two characters outside ASCII: the sharp s (\<open>0xDF\<close>), which
  \<open>toUpperCase\<close> turns into \<open>SS\<close>, and the no-break space (\<open>0xA0\<close>), which is white
  space.
\<close>

definition latin_engine :: engine where
  "latin_engine =
     \<lparr> white_space_other = (\<lambda>c. c = CHR 0xA0),
       upper_case_other =
         (\<lambda>s. concat (map (\<lambda>c. if c = CHR 0xDF then ''SS'' else [upper_char c]) s)),
       to_double = Fin \<rparr>"

text \<open>A \<open>JSON.stringify\<close> that renders strings and gives \<open>[]\<close> for everything else.\<close>

definition sample_stringify :: "json \<Rightarrow> string" where
  "sample_stringify j = (case j of JStr x \<Rightarrow> dq @ x @ dq | _ \<Rightarrow> ''[]'')"

text \<open>
  A runtime in which every host answers with the sample page, except the hosts whose
  name starts with \<open>down.\<close>, and in which the AI provider gives the answer \<open>a\<close>.
\<close>

definition sample_rt :: "error + string \<Rightarrow> runtime" where
  "sample_rt a =
     \<lparr> axios_get = (\<lambda>u. if prefix ''https://down.'' u
                          then Inl (Error ''timeout of 10000ms exceeded'')
                          else Inr sample_document),
       axios_post = (\<lambda>r. a),
       JSON_parse = sample_parse,
       JSON_stringify = sample_stringify,
       now_iso = ''2024-01-01T00:00:00.000Z'',
       engine = ascii_engine \<rparr>"

text \<open>A cache row created at time 0 for the key \<open>(acme.com, cloud)\<close>.\<close>

definition stale_table :: cache_table where
  "stale_table =
     (\<lambda>k. None)((''acme.com'', ''cloud'') :=
        Some \<lparr> row_domain = ''acme.com'', row_topic = ''cloud'',
               analysis_data = dq @ ''old'' @ dq, relevance_score = Fin 2,
               hit_count = 1, last_accessed_at = 0, created_at = 0, updated_at = 0 \<rparr>)"

definition sample_service :: service where
  "sample_service =
     new_CompanyAnalysisService
       \<lparr> OPENAI_API_KEY = Some ''sk-test'', ANTHROPIC_API_KEY = None,
         AI_PROVIDER = None, AI_MODEL = None \<rparr>"

definition sample_lead :: "string \<Rightarrow> string option \<Rightarrow> lead" where
  "sample_lead n w =
     \<lparr> name = Some n, companyName = None, industry = None, location = None,
       estimated_num_employees = None, short_description = None,
       website = w, website_url = None, domain = None,
       websiteContent = None, websiteScraped = None, lead_scrapedAt = None,
       aiAnalysis = None, relevanceScore = None \<rparr>"

definition sample_post :: "rat \<Rightarrow> string \<Rightarrow> post" where
  "sample_post i txt =
     \<lparr> post_id = Some (JNum (Fin i)), post_caption = None, post_text = Some txt,
       post_content = None \<rparr>"

definition eight_days :: int where
  "eight_days = 8 * 24 * 60 * 60 * 1000000"

definition sample_env :: process_env where
  "sample_env =
     \<lparr> OPENAI_API_KEY = Some ''sk-test'', ANTHROPIC_API_KEY = None,
       AI_PROVIDER = None, AI_MODEL = None \<rparr>"

definition sample_request :: enrich_request where
  "sample_request =
     \<lparr> leads = Some [sample_lead ''Acme'' (Some ''https://acme.com''), sample_lead ''NoSite'' None],
       topic = Some ''cloud'', icp_description = None, min_relevance_score = None,
       enable_website_scraping = None, enable_ai_analysis = None \<rparr>"

text \<open>
  The sample runtime with the engine that knows the sharp s, and the answer \<open>ye\<close>
  followed by a sharp s.
\<close>

definition latin_rt :: "error + string \<Rightarrow> runtime" where
  "latin_rt a = (sample_rt a)\<lparr> engine := latin_engine \<rparr>"


definition acme_page :: scraped where
  "acme_page = \<lparr> url = ''https://acme.com'', title = ''Acme'', description = '''',
     headings = '''', content = ''Hi'', scrapedAt = ''2024-01-01T00:00:00.000Z'' \<rparr>"

section \<open>Properties of the content extractor\<close>

text \<open>
  C4 (as stated, refuted). The claim says that exactly the sections whose value has at
  most 10 characters are omitted. For a page with the title \<open>Acme\<close>, no description, no
  headings and the body \<open>Hi\<close>, every value is that short, yet the code keeps all four
  labelled sections.
\<close>

theorem extractTextForAnalysis_short_values_kept:
  "extractTextForAnalysis (Some acme_page) =
     ''Title: Acme'' @ nl @ nl @ ''Description: '' @ nl @ nl @ ''Key Sections: '' @ nl @ nl @ ''Content: Hi''
   \<and> extractText_by_value_length (Some acme_page) = []
   \<and> extractTextForAnalysis (Some acme_page) \<noteq> extractText_by_value_length (Some acme_page)"
  by (simp add: extractTextForAnalysis_def extractText_by_value_length_def acme_page_def nl_def)

text \<open>
  C4 (amended). The extractor joins the labelled parts \<open>Title:\<close>, \<open>Description:\<close>,
  \<open>Key Sections:\<close> and \<open>Content:\<close> (the content cut to 2000 characters) and omits
  exactly the parts whose whole text, label included, has at most 10 characters: the
  title part when the title has at most 3 characters, the content part when the cut
  content has at most 1 character, and never the description or the key sections.
\<close>

theorem extractTextForAnalysis_parts:
  "extractTextForAnalysis (Some d) =
     join (nl @ nl)
       ((if length (title d) > 3 then [''Title: '' @ title d] else []) @
        [''Description: '' @ description d, ''Key Sections: '' @ headings d] @
        (if length (take 2000 (content d)) > 1
         then [''Content: '' @ take 2000 (content d)] else []))"
  by (simp add: extractTextForAnalysis_def Let_def)

section \<open>Properties of the Fetcher\<close>

lemma sample_scrape:
  "scrapeWebsite (sample_rt a) ''https://acme.com'' =
     ([''https://acme.com''],
      Some \<lparr> url = ''https://acme.com'', title = ''Acme Cloud'',
             description = ''Managed Kubernetes for teams'',
             headings = ''Products | DevOps'', content = ''We run AWS and Kubernetes.'',
             scrapedAt = ''2024-01-01T00:00:00.000Z'' \<rparr>)"
  by (simp add: scrapeWebsite_def sample_rt_def sample_document_def or_lit_def or_str_def
      falsy_def trim_def is_space_def ascii_engine_def collect_headings_def)

lemma sample_service_eq:
  "sample_service = \<lparr> apiKey = Some ''sk-test'', provider = ''openai'', model = ''gpt-4o-mini'' \<rparr>"
  by (simp add: sample_service_def new_CompanyAnalysisService_def or_str_def or_lit_def falsy_def)




text \<open>
  C5 (as stated, refuted). The claim says that the Fetcher puts \<open>https://\<close> in front of
  a bare domain and then fetches it. \<open>scrapeWebsite\<close> on \<open>acme.com\<close> issues no request
  and returns \<open>null\<close>, although the host answers when asked under \<open>https://acme.com\<close>.
\<close>

theorem scrapeWebsite_bare_domain_rejected:
  "scrapeWebsite (sample_rt (Inr ''YES'')) ''acme.com'' = ([], None)
   \<and> fst (fetch_normalized (sample_rt (Inr ''YES'')) ''acme.com'') = [''https://acme.com'']
   \<and> snd (fetch_normalized (sample_rt (Inr ''YES'')) ''acme.com'') \<noteq> None"
  by (simp add: fetch_normalized_def sample_scrape) (simp add: scrapeWebsite_def)

text \<open>
  C5 (amended). The Fetcher treats an input that is empty or does not start with
  \<open>http\<close> as invalid: it returns \<open>null\<close> and issues no request. An input that starts
  with \<open>http\<close> is requested as it is. The prefix \<open>https://\<close> is added by the parallel
  topic matcher, before it calls the Fetcher: a company whose website is a bare domain
  is judged as the same company with \<open>https://\<close> in front of the domain.
\<close>

theorem scrapeWebsite_requires_http_prefix:
  "(u = [] \<or> \<not> prefix ''http'' u \<longrightarrow> scrapeWebsite rt u = ([], None))
   \<and> (u \<noteq> [] \<and> prefix ''http'' u \<longrightarrow> fst (scrapeWebsite rt u) = [u])
   \<and> (website c = Some d \<and> d \<noteq> [] \<and> \<not> prefix ''http://'' d \<and> \<not> prefix ''https://'' d \<longrightarrow>
        isRelated (processCompany rt svc t c i) =
        isRelated (processCompany rt svc t (c\<lparr> website := Some (''https://'' @ d) \<rparr>) i))"
proof -
  have a: "u = [] \<or> \<not> prefix ''http'' u \<longrightarrow> scrapeWebsite rt u = ([], None)"
    by (simp add: scrapeWebsite_def)
  have b: "u \<noteq> [] \<and> prefix ''http'' u \<longrightarrow> fst (scrapeWebsite rt u) = [u]"
    by (simp add: scrapeWebsite_def Let_def split: sum.splits)
  have c: "website c = Some d \<and> d \<noteq> [] \<and> \<not> prefix ''http://'' d \<and> \<not> prefix ''https://'' d \<longrightarrow>
        isRelated (processCompany rt svc t c i) =
        isRelated (processCompany rt svc t (c\<lparr> website := Some (''https://'' @ d) \<rparr>) i)"
    by (simp add: processCompany_def Let_def or_str_def falsy_def split: option.splits sum.splits)
  show ?thesis using a b c by blast
qed

theorem scrapeWebsite_requires_http_prefix_witness:
  "\<not> prefix ''http'' ''acme.com''
   \<and> scrapeWebsite (sample_rt (Inr ''YES'')) ''acme.com'' = ([], None)
   \<and> prefix ''http'' ''https://acme.com''
   \<and> fst (scrapeWebsite (sample_rt (Inr ''YES'')) ''https://acme.com'') = [''https://acme.com'']
   \<and> isRelated (processCompany (sample_rt (Inr ''YES'')) sample_service ''cloud''
                  (sample_lead ''Acme'' (Some ''acme.com'')) 0) =
     isRelated (processCompany (sample_rt (Inr ''YES'')) sample_service ''cloud''
                  (sample_lead ''Acme'' (Some ''https://acme.com'')) 0)"
  using scrapeWebsite_requires_http_prefix
          [of "''acme.com''" "sample_rt (Inr ''YES'')" "sample_lead ''Acme'' (Some ''acme.com'')"
              "''acme.com''" sample_service "''cloud''" 0]
        scrapeWebsite_requires_http_prefix
          [of "''https://acme.com''" "sample_rt (Inr ''YES'')" "sample_lead ''Acme'' (Some ''acme.com'')"
              "''acme.com''" sample_service "''cloud''" 0]
  by (simp add: sample_lead_def)

section \<open>Properties of the graded analysis\<close>

lemma or_zero_not_NaN: "or_zero (Some x) \<noteq> NaN"
  by (cases x) simp_all

lemma or_zero_Some: "or_zero (Some x) = (if x = NaN then Fin 0 else x)"
  by (cases x) simp_all

lemma read_verdict_not_NaN:
  "read_verdict eng parsed = Inr v \<Longrightarrow> confidence v \<noteq> NaN \<and> score v \<noteq> NaN"
  by (cases parsed)
     (auto simp: read_verdict_def bind_err_def or_zero_not_NaN split: sum.splits)

lemma parse_numeric_not_NaN:
  "confidence (parseAnalysisResponse rt r) \<noteq> NaN \<and> score (parseAnalysisResponse rt r) \<noteq> NaN"
  by (auto simp: parseAnalysisResponse_def parse_failed_def split: option.splits sum.splits
      dest: read_verdict_not_NaN)

lemma read_verdict_obj:
  assumes "parseInt eng (map_of (rev kvs) ''confidence'') = Inr a"
    and "parseFloat eng (map_of (rev kvs) ''score'') = Inr b"
  shows "read_verdict eng (JObj kvs) =
     Inr \<lparr> isRelevant = Some (map_of (rev kvs) ''isRelevant'' = Some (JBool True)),
           confidence = or_zero (Some a),
           score = or_zero (Some b),
           reasoning = or_json (map_of (rev kvs) ''reasoning'') (JStr []),
           keyMatches = Some (or_json (map_of (rev kvs) ''keyMatches'') (JArr [])),
           concerns = Some (or_json (map_of (rev kvs) ''concerns'') (JArr [])) \<rparr>"
  using assms by (simp add: read_verdict_def bind_err_def)

lemma read_verdict_throws:
  assumes "(\<exists>e. parseInt eng (map_of (rev kvs) ''confidence'') = Inl e)
           \<or> (\<exists>e. parseFloat eng (map_of (rev kvs) ''score'') = Inl e)"
  shows "\<exists>e. read_verdict eng (JObj kvs) = Inl e"
  using assms by (auto simp: read_verdict_def bind_err_def split: sum.splits)

text \<open>The conversions throw exactly on a value whose conversion to a string throws.\<close>

lemma parseInt_throws_iff:
  "(\<exists>e. parseInt eng v = Inl e) \<longleftrightarrow> (\<exists>j. v = Some j \<and> to_string_throws j)"
  by (auto simp: parseInt_def parseInt_json_def split: option.splits)

lemma parseFloat_throws_iff:
  "(\<exists>e. parseFloat eng v = Inl e) \<longleftrightarrow> (\<exists>j. v = Some j \<and> to_string_throws j)"
  by (auto simp: parseFloat_def parseFloat_json_def split: option.splits)

lemma not_numeric_parse:
  "not_numeric v \<Longrightarrow> parseInt eng v = Inr NaN \<and> parseFloat eng v = Inr NaN"
  by (induction v rule: not_numeric.induct)
     (simp_all add: parseInt_def parseFloat_def parseInt_json_def parseFloat_json_def)

lemma parseFloat_number: "parseFloat eng (Some (JNum x)) = Inr x"
  by (simp add: parseFloat_def parseFloat_json_def)

lemma parseInt_number: "parseInt eng (Some (JNum x)) = Inr (parseInt_num x)"
  by (simp add: parseInt_def parseInt_json_def)

text \<open>
  C2. The graded analysis never throws: \<open>analyzeCompanyRelevance\<close> always returns a
  verdict. When the API key is absent, when the call to the provider throws, or when
  the response is not parsable JSON, the verdict has \<open>isRelevant = null\<close>, \<open>score = 0\<close>
  and a non-empty diagnostic \<open>reasoning\<close>; \<open>parseAnalysisResponse\<close> on unparsable text
  gives \<open>null\<close>, 0 and the text \<open>Failed to parse AI response\<close>.
\<close>

theorem analyzeCompanyRelevance_soft_failure:
  "(\<exists>v. analyzeCompanyRelevance rt svc c w t = Inr v)
   \<and> (falsy (apiKey svc)
        \<or> (\<exists>e. callAI rt svc (buildAnalysisPrompt c w t) = Inl e)
        \<or> (\<exists>r. callAI rt svc (buildAnalysisPrompt c w t) = Inr r \<and> JSON_parse rt r = None)
      \<longrightarrow> (\<exists>v m. analyzeCompanyRelevance rt svc c w t = Inr v
                 \<and> isRelevant v = None \<and> score v = Fin 0
                 \<and> reasoning v = JStr m \<and> m \<noteq> []))
   \<and> (JSON_parse rt r = None \<longrightarrow>
         isRelevant (parseAnalysisResponse rt r) = None
         \<and> score (parseAnalysisResponse rt r) = Fin 0
         \<and> reasoning (parseAnalysisResponse rt r) = JStr ''Failed to parse AI response'')"
  by (auto simp: analyzeCompanyRelevance_def Let_def parseAnalysisResponse_def parse_failed_def
      not_configured_def analysis_failed_def split: sum.splits)

theorem analyzeCompanyRelevance_soft_failure_witness:
  "callAI (sample_rt (Inr ''not json'')) sample_service
      (buildAnalysisPrompt (sample_lead ''Acme'' None) [] ''cloud'') = Inr ''not json''
   \<and> JSON_parse (sample_rt (Inr ''not json'')) ''not json'' = None
   \<and> analyzeCompanyRelevance (sample_rt (Inr ''not json'')) sample_service
        (sample_lead ''Acme'' None) [] ''cloud'' = Inr parse_failed"
proof -
  have a: "callAI (sample_rt (Inr ''not json'')) sample_service p = Inr ''not json''" for p
    by (simp add: callAI_def callOpenAI_def sample_rt_def sample_service_eq)
  have b: "JSON_parse (sample_rt (Inr ''not json'')) ''not json'' = None"
    by (simp add: sample_rt_def sample_parse_def null_fields_response_def over_range_response_def
        unconvertible_response_def)
  show ?thesis
    using analyzeCompanyRelevance_soft_failure
            [of "sample_rt (Inr ''not json'')" sample_service "sample_lead ''Acme'' None" "[]"
                "''cloud''" "''not json''"] a b
    by (auto simp: analyzeCompanyRelevance_def sample_service_eq falsy_def parseAnalysisResponse_def)
qed

lemma sample_parse_over_range:
  "JSON_parse (sample_rt a) over_range_response =
     Some (JObj [(''isRelevant'', JBool True), (''confidence'', JNum (Fin 150)),
                 (''score'', JNum (Fin 15))])"
  by (simp add: sample_rt_def sample_parse_def)

lemma sample_parse_null_fields:
  "JSON_parse (sample_rt a) null_fields_response =
     Some (JObj [(''confidence'', JNull), (''score'', JNull)])"
  by (simp add: sample_rt_def sample_parse_def null_fields_response_def over_range_response_def)

lemma sample_parse_unconvertible:
  "JSON_parse (sample_rt a) unconvertible_response =
     Some (JObj [(''confidence'', JObj [(''toString'', JNum (Fin 1))]), (''score'', JNum (Fin 9))])"
  by (simp add: sample_rt_def sample_parse_def null_fields_response_def over_range_response_def
      unconvertible_response_def)

text \<open>
  C3 (as stated, refuted). The claim says that confidence is brought into \<open>[0, 100]\<close>
  and score into \<open>[0, 10]\<close>. For the response
  \<open>{"isRelevant":true,"confidence":150,"score":15}\<close> the parsed verdict has confidence
  150 and score 15.
\<close>

theorem parseAnalysisResponse_over_range:
  "confidence (parseAnalysisResponse (sample_rt (Inr over_range_response)) over_range_response) = Fin 150
   \<and> score (parseAnalysisResponse (sample_rt (Inr over_range_response)) over_range_response) = Fin 15
   \<and> \<not> in_documented_ranges
         (parseAnalysisResponse (sample_rt (Inr over_range_response)) over_range_response)"
  by (simp add: parseAnalysisResponse_def sample_parse_over_range
      read_verdict_obj [where a = "Fin 150" and b = "Fin 15"]
      parseInt_number parseFloat_number parseInt_num_def in_documented_ranges_def)

text \<open>
  C3 (amended). The numeric fields of the parsed verdict are coerced, not clamped.
  Neither is ever \<open>NaN\<close>. When the response is a JSON object and both conversions
  succeed, confidence is \<open>parseInt\<close> of the field and score is \<open>parseFloat\<close> of the
  field, with 0 in place of \<open>NaN\<close>: a field that is missing, \<open>null\<close>, a boolean, an
  empty array or an object without an own \<open>toString\<close> gives 0, and a numeric score is
  returned as it is, whatever its size. When a conversion throws (the field is an object
  with an own key \<open>toString\<close>, or an array that holds one), the whole verdict is the
  fallback with \<open>isRelevant = null\<close>, confidence 0 and score 0.
\<close>

theorem parseAnalysisResponse_coerces:
  "confidence (parseAnalysisResponse rt response) \<noteq> NaN
   \<and> score (parseAnalysisResponse rt response) \<noteq> NaN
   \<and> (JSON_parse rt response = Some (JObj kvs) \<longrightarrow>
        (parseInt (engine rt) (map_of (rev kvs) ''confidence'') = Inr a
           \<and> parseFloat (engine rt) (map_of (rev kvs) ''score'') = Inr b \<longrightarrow>
             confidence (parseAnalysisResponse rt response) = (if a = NaN then Fin 0 else a)
             \<and> score (parseAnalysisResponse rt response) = (if b = NaN then Fin 0 else b)
             \<and> (not_numeric (map_of (rev kvs) ''confidence'') \<longrightarrow>
                  confidence (parseAnalysisResponse rt response) = Fin 0)
             \<and> (not_numeric (map_of (rev kvs) ''score'') \<longrightarrow>
                  score (parseAnalysisResponse rt response) = Fin 0)
             \<and> (map_of (rev kvs) ''score'' = Some (JNum x) \<longrightarrow> x \<noteq> NaN \<longrightarrow>
                  score (parseAnalysisResponse rt response) = x))
        \<and> ((\<exists>j. map_of (rev kvs) ''confidence'' = Some j \<and> to_string_throws j)
             \<or> (\<exists>j. map_of (rev kvs) ''score'' = Some j \<and> to_string_throws j) \<longrightarrow>
             parseAnalysisResponse rt response = parse_failed))"
proof -
  let ?c = "map_of (rev kvs) ''confidence''" and ?s = "map_of (rev kvs) ''score''"
  have n: "confidence (parseAnalysisResponse rt response) \<noteq> NaN"
    "score (parseAnalysisResponse rt response) \<noteq> NaN"
    using parse_numeric_not_NaN by blast+
  have ok: "confidence (parseAnalysisResponse rt response) = (if a = NaN then Fin 0 else a)
             \<and> score (parseAnalysisResponse rt response) = (if b = NaN then Fin 0 else b)
             \<and> (not_numeric ?c \<longrightarrow> confidence (parseAnalysisResponse rt response) = Fin 0)
             \<and> (not_numeric ?s \<longrightarrow> score (parseAnalysisResponse rt response) = Fin 0)
             \<and> (?s = Some (JNum x) \<longrightarrow> x \<noteq> NaN \<longrightarrow>
                  score (parseAnalysisResponse rt response) = x)"
    if p: "JSON_parse rt response = Some (JObj kvs)"
      and a: "parseInt (engine rt) ?c = Inr a" and b: "parseFloat (engine rt) ?s = Inr b"
  proof -
    have v: "parseAnalysisResponse rt response =
        \<lparr> isRelevant = Some (map_of (rev kvs) ''isRelevant'' = Some (JBool True)),
           confidence = or_zero (Some a),
           score = or_zero (Some b),
           reasoning = or_json (map_of (rev kvs) ''reasoning'') (JStr []),
           keyMatches = Some (or_json (map_of (rev kvs) ''keyMatches'') (JArr [])),
           concerns = Some (or_json (map_of (rev kvs) ''concerns'') (JArr [])) \<rparr>"
      by (simp add: parseAnalysisResponse_def p read_verdict_obj [OF a b])
    have c0: "not_numeric ?c \<Longrightarrow> a = NaN"
      using not_numeric_parse [of ?c "engine rt"] a by simp
    have s0: "not_numeric ?s \<Longrightarrow> b = NaN"
      using not_numeric_parse [of ?s "engine rt"] b by simp
    have sx: "?s = Some (JNum x) \<Longrightarrow> b = x"
      using b by (simp add: parseFloat_number)
    show ?thesis
      using c0 s0 sx by (auto simp: v or_zero_Some)
  qed
  have bad: "parseAnalysisResponse rt response = parse_failed"
    if p: "JSON_parse rt response = Some (JObj kvs)"
      and t: "(\<exists>j. ?c = Some j \<and> to_string_throws j) \<or> (\<exists>j. ?s = Some j \<and> to_string_throws j)"
  proof -
    from t have "(\<exists>e. parseInt (engine rt) ?c = Inl e) \<or> (\<exists>e. parseFloat (engine rt) ?s = Inl e)"
      unfolding parseInt_throws_iff parseFloat_throws_iff .
    from read_verdict_throws [OF this] obtain e where "read_verdict (engine rt) (JObj kvs) = Inl e"
      by blast
    then show ?thesis by (simp add: parseAnalysisResponse_def p)
  qed
  show ?thesis using n ok bad by blast
qed

theorem parseAnalysisResponse_coerces_witness:
  "JSON_parse (sample_rt (Inr over_range_response)) over_range_response =
     Some (JObj [(''isRelevant'', JBool True), (''confidence'', JNum (Fin 150)),
                 (''score'', JNum (Fin 15))])
   \<and> confidence (parseAnalysisResponse (sample_rt (Inr over_range_response)) over_range_response) = Fin 150
   \<and> score (parseAnalysisResponse (sample_rt (Inr over_range_response)) over_range_response) = Fin 15
   \<and> JSON_parse (sample_rt (Inr null_fields_response)) null_fields_response =
     Some (JObj [(''confidence'', JNull), (''score'', JNull)])
   \<and> confidence (parseAnalysisResponse (sample_rt (Inr null_fields_response)) null_fields_response) = Fin 0
   \<and> score (parseAnalysisResponse (sample_rt (Inr null_fields_response)) null_fields_response) = Fin 0
   \<and> JSON_parse (sample_rt (Inr unconvertible_response)) unconvertible_response =
     Some (JObj [(''confidence'', JObj [(''toString'', JNum (Fin 1))]), (''score'', JNum (Fin 9))])
   \<and> to_string_throws (JObj [(''toString'', JNum (Fin 1))])
   \<and> parseAnalysisResponse (sample_rt (Inr unconvertible_response)) unconvertible_response
       = parse_failed
   \<and> score parse_failed = Fin 0"
  using parseAnalysisResponse_coerces
          [of "sample_rt (Inr over_range_response)" over_range_response
              "[(''isRelevant'', JBool True), (''confidence'', JNum (Fin 150)),
                (''score'', JNum (Fin 15))]" "Fin 150" "Fin 15" "Fin 15"]
        parseAnalysisResponse_coerces
          [of "sample_rt (Inr null_fields_response)" null_fields_response
              "[(''confidence'', JNull), (''score'', JNull)]" NaN NaN]
        parseAnalysisResponse_coerces
          [of "sample_rt (Inr unconvertible_response)" unconvertible_response
              "[(''confidence'', JObj [(''toString'', JNum (Fin 1))]), (''score'', JNum (Fin 9))]"]
        sample_parse_over_range sample_parse_null_fields sample_parse_unconvertible
  by (simp add: parseInt_number parseFloat_number parseInt_num_def not_numeric_parse
      parse_failed_def)

section \<open>Properties of the binary topic check\<close>

lemma is_space_upper_char: "is_space eng (upper_char c) = is_space eng c"
proof (cases "map_of (zip ''abcdefghijklmnopqrstuvwxyz'' ''ABCDEFGHIJKLMNOPQRSTUVWXYZ'') c")
  case None
  then show ?thesis by (simp add: upper_char_def)
next
  case (Some u)
  then show ?thesis
    by (auto simp: upper_char_def is_space_def ascii_char_def split: if_splits)
qed

lemma upper_trim: "map upper_char (trim eng r) = trim eng (map upper_char r)"
  by (simp add: trim_def rev_map dropWhile_map comp_def is_space_upper_char)

lemma sublist_dropWhile_iff:
  assumes "xs \<noteq> []" "\<not> P (hd xs)"
  shows "sublist xs (dropWhile P ys) = sublist xs ys"
proof (induction ys)
  case Nil
  show ?case by simp
next
  case (Cons y ys)
  show ?case
  proof (cases "P y")
    case True
    have "\<not> prefix xs (y # ys)" using assms True by (cases xs) auto
    then show ?thesis using True Cons by (simp add: sublist_Cons_right)
  next
    case False
    then show ?thesis by simp
  qed
qed

lemma sublist_YES_trim: "sublist ''YES'' (trim eng s) = sublist ''YES'' s"
proof -
  have "sublist ''YES'' (trim eng s) =
        sublist ''SEY'' (dropWhile (is_space eng) (rev (dropWhile (is_space eng) s)))"
    by (simp add: trim_def sublist_rev_right)
  also have "\<dots> = sublist ''SEY'' (rev (dropWhile (is_space eng) s))"
    by (rule sublist_dropWhile_iff) (simp_all add: is_space_def ascii_char_def)
  also have "\<dots> = sublist ''YES'' (dropWhile (is_space eng) s)"
    by (simp add: sublist_rev_right)
  also have "\<dots> = sublist ''YES'' s"
    by (rule sublist_dropWhile_iff) (simp_all add: is_space_def ascii_char_def)
  finally show ?thesis .
qed

lemma upper_char_Y: "upper_char c = CHR ''Y'' \<longleftrightarrow> c = CHR ''y'' \<or> c = CHR ''Y''"
  by (auto simp: upper_char_def)

lemma upper_char_E: "upper_char c = CHR ''E'' \<longleftrightarrow> c = CHR ''e'' \<or> c = CHR ''E''"
  by (auto simp: upper_char_def)

lemma upper_char_S: "upper_char c = CHR ''S'' \<longleftrightarrow> c = CHR ''s'' \<or> c = CHR ''S''"
  by (auto simp: upper_char_def)

lemma sublist_YES_upper: "sublist ''YES'' (map upper_char r) = contains_yes r"
proof (induction r rule: contains_yes.induct)
  case (1 a b c r)
  have "sublist ''YES'' (map upper_char (a # b # c # r)) =
        (prefix ''YES'' (map upper_char (a # b # c # r)) \<or>
         sublist ''YES'' (map upper_char (b # c # r)))"
    by (simp add: sublist_Cons_right)
  then show ?case using 1
    by (simp add: upper_char_Y upper_char_E upper_char_S eq_commute [of "CHR ''Y''"]
        eq_commute [of "CHR ''E''"] eq_commute [of "CHR ''S''"])
qed (simp_all add: sublist_Cons_right)

lemma set_dropWhile_subset: "set (dropWhile P xs) \<subseteq> set xs"
  by (auto dest: set_dropWhileD)

lemma ascii_trim: "ascii r \<Longrightarrow> ascii (trim eng r)"
proof -
  have "set (trim eng r) = set (dropWhile (is_space eng) (rev (dropWhile (is_space eng) r)))"
    by (simp add: trim_def)
  also have "\<dots> \<subseteq> set (rev (dropWhile (is_space eng) r))"
    by (rule set_dropWhile_subset)
  also have "\<dots> = set (dropWhile (is_space eng) r)"
    by simp
  also have "\<dots> \<subseteq> set r"
    by (rule set_dropWhile_subset)
  finally have "set (trim eng r) \<subseteq> set r" .
  then show "ascii r \<Longrightarrow> ascii (trim eng r)"
    by (auto simp: ascii_def list_all_iff)
qed

text \<open>On an ASCII response the test of the code is the case-insensitive search.\<close>

lemma includes_YES:
  "ascii r \<Longrightarrow> sublist ''YES'' (toUpperCase eng (trim eng r)) = contains_yes r"
  by (simp add: toUpperCase_def ascii_trim upper_trim sublist_YES_trim sublist_YES_upper)

lemma trim_Nil: "trim eng [] = []"
  by (simp add: trim_def)

lemma check_cases:
  "checkCompanyTopicRelation rt svc u c t =
     (if trim (engine rt) c = [] then Inr False
      else case topic_call rt svc u c t of
             Inl e \<Rightarrow> Inr False
           | Inr r \<Rightarrow> Inr (sublist ''YES'' (toUpperCase (engine rt) (trim (engine rt) r))))"
  by (auto simp: checkCompanyTopicRelation_def topic_call_def Let_def trim_Nil
      split: sum.splits)

lemma sample_topic_call: "topic_call (sample_rt a) sample_service u c t = a"
  by (simp add: topic_call_def callAIFlexible_def sample_service_eq sample_rt_def)


lemma sample_engine: "engine (sample_rt a) = ascii_engine"
  by (simp add: sample_rt_def)

lemma latin_engine: "engine (latin_rt a) = latin_engine"
  by (simp add: latin_rt_def)




section \<open>Properties of the loops\<close>

lemma for_step_rule:
  assumes step: "0 < step"
    and init: "I i acc"
    and pres: "\<And>j a. I j a \<Longrightarrow> j < n \<Longrightarrow> I (j + step) (body j a)"
  shows "\<exists>r j. for_step n step body i acc = Some r \<and> I j r \<and> n \<le> j"
  using init
proof (induction "nat (n - i)" arbitrary: i acc rule: less_induct)
  case less
  show ?case
  proof (cases "i < n")
    case True
    have "nat (n - (i + step)) < nat (n - i)" using True step by simp
    from less.hyps [OF this pres [OF less.prems True]]
    show ?thesis using True by (subst for_step.simps) simp
  next
    case False
    then show ?thesis using less.prems by (subst for_step.simps) auto
  qed
qed

text \<open>A loop that returns has a positive step, or does not run at all.\<close>

lemma for_step_returns_only_if:
  assumes "for_step n step body i acc = Some y"
  shows "0 < step \<or> n \<le> i"
  by (rule for_step.raw_induct [where P = "\<lambda>n step body i acc y. 0 < step \<or> n \<le> i", OF _ assms])
     (fastforce split: if_splits)





lemma set_insert_sorted: "set (insert_sorted cmp x ys) = insert x (set ys)"
  by (induction ys) auto

lemma length_insert_sorted: "length (insert_sorted cmp x ys) = Suc (length ys)"
  by (induction ys) auto

lemma set_js_sort: "set (js_sort cmp xs) = set xs"
  by (induction xs) (simp_all add: js_sort_def set_insert_sorted)

lemma length_js_sort: "length (js_sort cmp xs) = length xs"
  by (induction xs) (simp_all add: js_sort_def length_insert_sorted)



section \<open>Properties of the parallel topic matcher\<close>

lemma processCompany_cases:
  "isRelated (processCompany rt svc t c i) =
     (case company_full_url c of
        None \<Rightarrow> None
      | Some f \<Rightarrow>
          (case snd (scrapeWebsite rt f) of
             None \<Rightarrow> None
           | Some sc \<Rightarrow>
               (case checkCompanyTopicRelation rt svc f (extractTextForAnalysis (Some sc)) t of
                  Inl e \<Rightarrow> None
                | Inr r \<Rightarrow> Some r)))"
  by (simp add: processCompany_def company_full_url_def Let_def split: option.splits sum.splits)

lemma sample_extract:
  "extractTextForAnalysis
     (Some \<lparr> url = ''https://acme.com'', title = ''Acme Cloud'',
             description = ''Managed Kubernetes for teams'',
             headings = ''Products | DevOps'', content = ''We run AWS and Kubernetes.'',
             scrapedAt = ''2024-01-01T00:00:00.000Z'' \<rparr>) =
   ''Title: Acme Cloud'' @ nl @ nl @ ''Description: Managed Kubernetes for teams'' @ nl @ nl @
   ''Key Sections: Products | DevOps'' @ nl @ nl @ ''Content: We run AWS and Kubernetes.''"
  by (simp add: extractTextForAnalysis_def)

lemma sample_verdict_code:
  "isRelated (processCompany (sample_rt a) sample_service ''cloud''
                (sample_lead n (Some ''acme.com'')) i) =
     (case a of
        Inl e \<Rightarrow> Some False
      | Inr r \<Rightarrow> Some (sublist ''YES'' (toUpperCase ascii_engine (trim ascii_engine r))))"
  by (simp add: processCompany_cases company_full_url_def sample_lead_def or_str_def falsy_def
      sample_scrape sample_extract check_cases sample_topic_call sample_engine trim_def
      is_space_def ascii_char_def nl_def
      split: sum.splits)

lemma sample_verdict_error:
  "isRelated (processCompany (sample_rt (Inl e)) sample_service ''cloud''
                (sample_lead n (Some ''acme.com'')) i) = Some False"
  by (simp add: sample_verdict_code)

lemma sample_verdict:
  "ascii r \<Longrightarrow>
     isRelated (processCompany (sample_rt (Inr r)) sample_service ''cloud''
                  (sample_lead n (Some ''acme.com'')) i) = Some (contains_yes r)"
  by (simp add: sample_verdict_code includes_YES)

lemma ascii_answers: "ascii ''YES''" "ascii ''NO''"
  by (simp_all add: ascii_def ascii_char_def)





text \<open>
  C9 (as stated, refuted). The claim says that the outcome of an oracle error and the
  outcome of an oracle that answered \<open>NO\<close> are different values. For a company whose
  page is scraped, both are \<open>false\<close>.
\<close>

theorem processCompany_oracle_error_is_no:
  "isRelated (processCompany (sample_rt (Inl (Error ''Request failed with status code 500'')))
                sample_service ''cloud'' (sample_lead ''Acme'' (Some ''acme.com'')) 0) = Some False
   \<and> isRelated (processCompany (sample_rt (Inr ''NO'')) sample_service ''cloud''
                  (sample_lead ''Acme'' (Some ''acme.com'')) 0) = Some False"
  by (simp add: sample_verdict sample_verdict_error ascii_answers)

text \<open>
  C9 (amended). In binary mode a company without a website URL, or whose page cannot
  be fetched, gets \<open>null\<close>, which differs from the \<open>false\<close> of an explicit No. An
  oracle error on a scraped page gets \<open>false\<close>, the same value as an answer that,
  trimmed and upper-cased by \<open>toUpperCase\<close>, does not include \<open>YES\<close>; for an answer
  of ASCII characters that is an answer without \<open>YES\<close> in any mix of cases.
\<close>

theorem processCompany_unknown_values:
  "(company_full_url c = None \<longrightarrow> isRelated (processCompany rt svc t c i) = None)
   \<and> (company_full_url c = Some f \<and> snd (scrapeWebsite rt f) = None \<longrightarrow>
        isRelated (processCompany rt svc t c i) = None)
   \<and> (company_full_url c = Some f \<and> snd (scrapeWebsite rt f) = Some sc
        \<and> topic_call rt svc f (extractTextForAnalysis (Some sc)) t = Inl e \<longrightarrow>
        isRelated (processCompany rt svc t c i) = Some False)
   \<and> (company_full_url c = Some f \<and> snd (scrapeWebsite rt f) = Some sc
        \<and> topic_call rt svc f (extractTextForAnalysis (Some sc)) t = Inr r
        \<and> \<not> sublist ''YES'' (toUpperCase (engine rt) (trim (engine rt) r)) \<longrightarrow>
        isRelated (processCompany rt svc t c i) = Some False)
   \<and> (company_full_url c = Some f \<and> snd (scrapeWebsite rt f) = Some sc
        \<and> topic_call rt svc f (extractTextForAnalysis (Some sc)) t = Inr r
        \<and> ascii r \<and> \<not> contains_yes r \<longrightarrow>
        isRelated (processCompany rt svc t c i) = Some False)
   \<and> None \<noteq> Some False"
  by (auto simp: processCompany_cases check_cases includes_YES)

theorem processCompany_unknown_values_witness:
  "company_full_url (sample_lead ''NoSite'' None) = None
   \<and> isRelated (processCompany (sample_rt (Inr ''NO'')) sample_service ''cloud''
                  (sample_lead ''NoSite'' None) 0) = None
   \<and> company_full_url (sample_lead ''Down'' (Some ''down.example.com''))
        = Some ''https://down.example.com''
   \<and> snd (scrapeWebsite (sample_rt (Inr ''NO'')) ''https://down.example.com'') = None
   \<and> isRelated (processCompany (sample_rt (Inr ''NO'')) sample_service ''cloud''
                  (sample_lead ''Down'' (Some ''down.example.com'')) 0) = None
   \<and> company_full_url (sample_lead ''Acme'' (Some ''acme.com'')) = Some ''https://acme.com''
   \<and> snd (scrapeWebsite (sample_rt (Inl (Error ''Network Error''))) ''https://acme.com'') \<noteq> None
   \<and> isRelated (processCompany (sample_rt (Inl (Error ''Network Error''))) sample_service ''cloud''
                  (sample_lead ''Acme'' (Some ''acme.com'')) 0) = Some False
   \<and> ascii ''NO'' \<and> \<not> contains_yes ''NO''
   \<and> \<not> sublist ''YES'' (toUpperCase (engine (sample_rt (Inr ''NO'')))
                            (trim (engine (sample_rt (Inr ''NO''))) ''NO''))
   \<and> isRelated (processCompany (sample_rt (Inr ''NO'')) sample_service ''cloud''
                  (sample_lead ''Acme'' (Some ''acme.com'')) 0) = Some False"
proof -
  let ?sc = "\<lparr> url = ''https://acme.com'', title = ''Acme Cloud'',
             description = ''Managed Kubernetes for teams'',
             headings = ''Products | DevOps'', content = ''We run AWS and Kubernetes.'',
             scrapedAt = ''2024-01-01T00:00:00.000Z'' \<rparr>"
  have u: "company_full_url (sample_lead ''NoSite'' None) = None"
    "company_full_url (sample_lead ''Down'' (Some ''down.example.com''))
        = Some ''https://down.example.com''"
    "company_full_url (sample_lead ''Acme'' (Some ''acme.com'')) = Some ''https://acme.com''"
    by (simp_all add: company_full_url_def sample_lead_def or_str_def falsy_def)
  have d: "snd (scrapeWebsite (sample_rt (Inr ''NO'')) ''https://down.example.com'') = None"
    by (simp add: scrapeWebsite_def sample_rt_def)
  have s: "snd (scrapeWebsite (sample_rt a) ''https://acme.com'') = Some ?sc" for a
    by (simp add: sample_scrape)
  show ?thesis
    using processCompany_unknown_values
            [of "sample_lead ''NoSite'' None" "sample_rt (Inr ''NO'')" sample_service "''cloud''" 0]
          processCompany_unknown_values
            [of "sample_lead ''Down'' (Some ''down.example.com'')" "sample_rt (Inr ''NO'')"
                sample_service "''cloud''" 0 "''https://down.example.com''"]
          processCompany_unknown_values
            [of "sample_lead ''Acme'' (Some ''acme.com'')" "sample_rt (Inl (Error ''Network Error''))"
                sample_service "''cloud''" 0 "''https://acme.com''" ?sc "Error ''Network Error''"]
          processCompany_unknown_values
            [of "sample_lead ''Acme'' (Some ''acme.com'')" "sample_rt (Inr ''NO'')"
                sample_service "''cloud''" 0 "''https://acme.com''" ?sc _ "''NO''"]
          u d s ascii_answers
    by (simp add: sample_topic_call sample_engine includes_YES)
qed

section \<open>Properties of the cache\<close>

text \<open>A lookup is a hit exactly when the row exists and was created less than seven days ago.\<close>

lemma findByDomain_hit_iff:
  "fst (findByDomain now d t tbl) =
     (case tbl (d, t) of
        None \<Rightarrow> None
      | Some row \<Rightarrow> if now - created_at row < seven_days then Some row else None)"
  by (auto simp: findByDomain_def split: option.splits)

text \<open>
  For a key that is not in the table, an upsert followed by a lookup less than seven
  days later returns the row that was written; from seven days on the lookup misses
  and the row is still in the table.
\<close>

lemma upsert_new_key_then_findByDomain:
  assumes "tbl (d, t) = None"
  shows "fst (findByDomain later d t (snd (upsert rt now d v s t tbl))) =
           (if later - now < seven_days then Some (fst (upsert rt now d v s t tbl)) else None)"
    and "analysis_data (fst (upsert rt now d v s t tbl)) = JSON_stringify rt v"
    and "snd (findByDomain (now + seven_days) d t (snd (upsert rt now d v s t tbl))) (d, t)
           = Some (fst (upsert rt now d v s t tbl))"
  using assms by (simp_all add: findByDomain_def upsert_def inserted_timestamps_def Let_def)

text \<open>
  The table with the old row arises from an empty table by one upsert at time 0.
\<close>

lemma stale_table_reachable:
  "snd (upsert (sample_rt a) 0 ''acme.com'' (JStr ''old'') (Fin 2) ''cloud'' (\<lambda>k. None))
     = stale_table"
  by (simp add: upsert_def stale_table_def inserted_timestamps_def Let_def sample_rt_def
      sample_stringify_def)

text \<open>
  C8 (the code misses the claim). The row for \<open>(acme.com, cloud)\<close> was created at time
  0. Eight days later a new analysis is upserted for the key and looked up at once: the
  upsert has overwritten the analysis and set \<open>updated_at\<close>, but \<open>created_at\<close> is still 0,
  so the lookup reports a miss, within seven days of the upsert.
\<close>

theorem upsert_then_findByDomain_misses_old_key:
  "fst (findByDomain eight_days ''acme.com'' ''cloud''
          (snd (upsert (sample_rt (Inr ''YES'')) eight_days ''acme.com'' (JStr ''fresh'') (Fin 9)
                  ''cloud'' stale_table))) = None
   \<and> snd (upsert (sample_rt (Inr ''YES'')) eight_days ''acme.com'' (JStr ''fresh'') (Fin 9)
            ''cloud'' stale_table) (''acme.com'', ''cloud'')
      = Some \<lparr> row_domain = ''acme.com'', row_topic = ''cloud'',
               analysis_data = dq @ ''fresh'' @ dq, relevance_score = Fin 9,
               hit_count = 2, last_accessed_at = eight_days, created_at = 0,
               updated_at = eight_days \<rparr>"
  by (simp add: findByDomain_def upsert_def stale_table_def Let_def sample_rt_def
      sample_stringify_def eight_days_def seven_days_def)

section \<open>Properties of the post filter\<close>

lemma subseq_filter_posts: "subseq (filter P xs) xs"
  by (rule subseq_filter_left)

text \<open>
  C10. When the API key is not configured, or there are no posts, \<open>filterPostsByTopic\<close>
  returns the posts as they are. With a positive chunk size (the default is 20) it
  returns, and the result is a subsequence of the posts.
\<close>

theorem filterPostsByTopic_subsequence:
  "(falsy (apiKey svc) \<or> posts = [] \<longrightarrow>
      filterPostsByTopic rt svc posts t chunkSize = Some posts)
   \<and> (0 < chunkSize \<longrightarrow>
        (\<exists>out. filterPostsByTopic rt svc posts t chunkSize = Some out \<and> subseq out posts))"
proof -
  have a: "falsy (apiKey svc) \<or> posts = [] \<longrightarrow>
      filterPostsByTopic rt svc posts t chunkSize = Some posts"
    by (simp add: filterPostsByTopic_def)
  have b: "\<exists>out. filterPostsByTopic rt svc posts t chunkSize = Some out \<and> subseq out posts"
    if pos: "0 < chunkSize"
  proof (cases "falsy (apiKey svc) \<or> posts = []")
    case True
    then show ?thesis using a by auto
  next
    case False
    have "\<exists>r j. for_step (int (length posts)) chunkSize
             (\<lambda>i relevantPostIds.
                filter_chunk rt svc (posts_system_prompt t)
                  (js_slice posts i (i + chunkSize)) relevantPostIds) 0 [] = Some r
             \<and> True \<and> int (length posts) \<le> j"
      by (rule for_step_rule [where I = "\<lambda>j a. True"]) (simp_all add: pos)
    then obtain r where "for_step (int (length posts)) chunkSize
             (\<lambda>i relevantPostIds.
                filter_chunk rt svc (posts_system_prompt t)
                  (js_slice posts i (i + chunkSize)) relevantPostIds) 0 [] = Some r"
      by blast
    then have "filterPostsByTopic rt svc posts t chunkSize
                 = Some (filter (\<lambda>p. set_has r (post_id p)) posts)"
      using False by (simp add: filterPostsByTopic_def)
    then show ?thesis by (simp add: subseq_filter_posts)
  qed
  show ?thesis using a b by blast
qed

lemma sample_filter_posts:
  "filterPostsByTopic (sample_rt (Inr ''Relevant: [1, 3]'')) sample_service
     [sample_post 1 ''At GDC this week'', sample_post 2 ''Q3 earnings'',
      sample_post 3 ''Packing for London''] ''work travel'' 20
   = Some [sample_post 1 ''At GDC this week'', sample_post 3 ''Packing for London'']"
proof -
  have c: "callAIFlexible (sample_rt (Inr ''Relevant: [1, 3]'')) sample_service p sp 0
             = Inr ''Relevant: [1, 3]''" for p sp
    by (simp add: callAIFlexible_def sample_service_eq sample_rt_def)
  have s: "substring ''Relevant: [1, 3]'' (indexOf ''Relevant: [1, 3]'' CHR ''['')
             (lastIndexOf ''Relevant: [1, 3]'' CHR '']'' + 1) = ''[1, 3]''"
    by (simp add: substring_def indexOf_def lastIndexOf_def)
  have i: "indexOf ''Relevant: [1, 3]'' CHR ''['' \<noteq> - 1"
    "lastIndexOf ''Relevant: [1, 3]'' CHR '']'' \<noteq> - 1"
    by (simp_all add: indexOf_def lastIndexOf_def)
  have p: "JSON_parse (sample_rt (Inr ''Relevant: [1, 3]'')) ''[1, 3]''
             = Some (JArr [JNum (Fin 1), JNum (Fin 3)])"
    by (simp add: sample_rt_def sample_parse_def over_range_response_def null_fields_response_def
        unconvertible_response_def)
  have f: "filter_chunk (sample_rt (Inr ''Relevant: [1, 3]'')) sample_service sp ch ids
             = ids @ [JNum (Fin 1), JNum (Fin 3)]" for sp ch ids
    by (simp add: filter_chunk_def c Let_def s i p del: One_nat_def)
  have k: "\<not> falsy (apiKey sample_service)"
    by (simp add: sample_service_eq falsy_def)
  show ?thesis
    by (simp add: filterPostsByTopic_def k for_step.simps f set_has_def sample_post_def)
qed

theorem filterPostsByTopic_subsequence_witness:
  "(0::int) < 20
   \<and> filterPostsByTopic (sample_rt (Inr ''Relevant: [1, 3]'')) sample_service
        [sample_post 1 ''At GDC this week'', sample_post 2 ''Q3 earnings'',
         sample_post 3 ''Packing for London''] ''work travel'' 20
      = Some [sample_post 1 ''At GDC this week'', sample_post 3 ''Packing for London'']
   \<and> subseq [sample_post 1 ''At GDC this week'', sample_post 3 ''Packing for London'']
        [sample_post 1 ''At GDC this week'', sample_post 2 ''Q3 earnings'',
         sample_post 3 ''Packing for London'']
   \<and> falsy (apiKey (sample_service\<lparr> apiKey := None \<rparr>))
   \<and> filterPostsByTopic (sample_rt (Inr ''[]'')) (sample_service\<lparr> apiKey := None \<rparr>)
        [sample_post 1 ''At GDC this week'', sample_post 2 ''Q3 earnings''] ''work travel'' 20
      = Some [sample_post 1 ''At GDC this week'', sample_post 2 ''Q3 earnings'']"
  using filterPostsByTopic_subsequence
          [of sample_service
              "[sample_post 1 ''At GDC this week'', sample_post 2 ''Q3 earnings'',
                sample_post 3 ''Packing for London'']"
              "sample_rt (Inr ''Relevant: [1, 3]'')" "''work travel''" 20]
        filterPostsByTopic_subsequence
          [of "sample_service\<lparr> apiKey := None \<rparr>"
              "[sample_post 1 ''At GDC this week'', sample_post 2 ''Q3 earnings'']"
              "sample_rt (Inr ''[]'')" "''work travel''" 20]
        sample_filter_posts
  by (simp add: falsy_def)

section \<open>Properties of the enrichment pipeline\<close>

lemma scrapeMultiple_returns:
  assumes "0 < k"
  shows "\<exists>r. scrapeMultiple rt urls k = Some r"
proof -
  have "\<exists>r j. scrapeMultiple rt urls k = Some r \<and> True \<and> int (length urls) \<le> j"
    unfolding scrapeMultiple_def
    by (rule for_step_rule [where I = "\<lambda>j a. True"]) (simp_all add: assms)
  then show ?thesis by blast
qed

lemma analyze_score_not_NaN:
  "analyzeCompanyRelevance rt svc c w t = Inr v \<Longrightarrow> score v \<noteq> NaN"
  by (auto simp: analyzeCompanyRelevance_def Let_def not_configured_def analysis_failed_def
      parse_numeric_not_NaN split: if_splits sum.splits)

lemma analyze_each_Inr:
  "\<exists>rs. analyze_each rt svc t ls = Inr rs \<and> length rs = length ls
     \<and> (\<forall>l\<in>set rs. \<exists>l0\<in>set ls. \<exists>v. l = l0\<lparr> aiAnalysis := Some v, relevanceScore := Some (score v) \<rparr>
            \<and> score v \<noteq> NaN)"
proof (induction ls)
  case Nil
  show ?case by simp
next
  case (Cons c ls)
  have "\<exists>v. analyzeCompanyRelevance rt svc c (or_lit (websiteContent c) []) t = Inr v"
    by (simp add: analyzeCompanyRelevance_def Let_def split: sum.splits)
  then obtain v where v: "analyzeCompanyRelevance rt svc c (or_lit (websiteContent c) []) t = Inr v"
    by blast
  from Cons obtain rs where rs: "analyze_each rt svc t ls = Inr rs" "length rs = length ls"
    "\<forall>l\<in>set rs. \<exists>l0\<in>set ls. \<exists>v. l = l0\<lparr> aiAnalysis := Some v, relevanceScore := Some (score v) \<rparr>
            \<and> score v \<noteq> NaN"
    by blast
  show ?case using v rs analyze_score_not_NaN [OF v]
    by (auto simp: bind_err_def)
qed

lemma analyzeCompanies_Inr:
  "\<exists>rs. analyzeCompanies rt svc ls t = Inr rs \<and> length rs = length ls
     \<and> (\<forall>l\<in>set rs. \<exists>l0\<in>set ls. \<exists>v. l = l0\<lparr> aiAnalysis := Some v, relevanceScore := Some (score v) \<rparr>
            \<and> score v \<noteq> NaN)"
  using analyze_each_Inr [of rt svc t ls]
  by (auto simp: analyzeCompanies_def bind_err_def length_js_sort set_js_sort)

lemma js_slice_0: "0 \<le> b \<Longrightarrow> js_slice xs 0 b = take (nat b) xs"
  by (simp add: js_slice_def Let_def min_def)

lemma take_min_length: "take (min (length xs) k) xs = take k xs"
  by (simp add: min_def)

lemma input_fields_attach: "input_fields (attach_scraped sd l) = input_fields l"
  by (simp add: attach_scraped_def input_fields_def Let_def)

lemma input_fields_analysis:
  "input_fields (l\<lparr> aiAnalysis := a, relevanceScore := s \<rparr>) = input_fields l"
  by (simp add: input_fields_def)

lemma enrichLeads_invalid:
  assumes "leads req = None \<or> leads req = Some [] \<or> (falsy (topic req) \<and> falsy (icp_description req))"
  shows "\<exists>a b. enrichLeads rt env req = Some (Status400 a b)"
proof (cases "leads req")
  case None
  then show ?thesis
    unfolding enrichLeads_def Let_def by (simp only: option.case) blast
next
  case (Some ls)
  show ?thesis
  proof (cases "ls = []")
    case True
    then have e: "(ls = []) = True" by simp
    show ?thesis
      unfolding enrichLeads_def Let_def by (simp only: Some option.case e if_True) blast
  next
    case False
    with assms Some have c: "(falsy (topic req) \<and> falsy (icp_description req)) = True"
      by simp
    have d: "(ls = []) = False" using False by simp
    show ?thesis
      unfolding enrichLeads_def Let_def
      by (simp only: Some option.case d if_False c if_True) blast
  qed
qed

text \<open>The response to a valid request, stage by stage.\<close>

lemma enrichLeads_valid:
  assumes "leads req = Some ls" "ls \<noteq> []"
    and "\<not> (falsy (topic req) \<and> falsy (icp_description req))"
    and "(if (case enable_website_scraping req of None \<Rightarrow> True | Some b \<Rightarrow> b)
             \<and> filter (\<lambda>u. \<not> falsy u) (map lead_url (take 50 ls)) \<noteq> []
          then (case scrapeMultiple rt (map the (filter (\<lambda>u. \<not> falsy u) (map lead_url (take 50 ls)))) 5 of
                  None \<Rightarrow> None
                | Some scrapedData \<Rightarrow> Some (map (attach_scraped scrapedData) (take 50 ls)))
          else Some (take 50 ls)) = Some e1"
    and "(if (case enable_ai_analysis req of None \<Rightarrow> True | Some b \<Rightarrow> b)
          then analyzeCompanies rt (new_CompanyAnalysisService env) e1
                 (the (or_str (topic req) (icp_description req)))
          else Inr e1) = Inr e2"
    and "parseFloat (engine rt)
           (Some (case min_relevance_score req of None \<Rightarrow> JNum (Fin 5) | Some j \<Rightarrow> j)) = Inr m"
  shows "enrichLeads rt env req =
           Some (Json200
             (js_sort (\<lambda>a b. js_sub (or_zero (relevanceScore b)) (or_zero (relevanceScore a)))
                (filter (\<lambda>l. \<not> (case enable_ai_analysis req of None \<Rightarrow> True | Some b \<Rightarrow> b) \<or>
                              js_ge (or_zero (relevanceScore l))
                                m)
                   e2))
             \<lparr> total_input = length ls,
               total_processed = min (length ls) 50,
               total_enriched =
                 length (filter (\<lambda>l. \<not> (case enable_ai_analysis req of None \<Rightarrow> True | Some b \<Rightarrow> b) \<or>
                              js_ge (or_zero (relevanceScore l))
                                m)
                   e2),
               website_scraping_enabled = (case enable_website_scraping req of None \<Rightarrow> True | Some b \<Rightarrow> b),
               ai_analysis_enabled = (case enable_ai_analysis req of None \<Rightarrow> True | Some b \<Rightarrow> b),
               meta_min_relevance_score = m,
               meta_topic = the (or_str (topic req) (icp_description req)) \<rparr>)"
proof -
  have a: "js_slice ls 0 (int (min (length ls) 50)) = take 50 ls"
    by (simp add: js_slice_0 take_min_length)
  have c: "(falsy (topic req) \<and> falsy (icp_description req)) = False"
    using assms(3) by simp
  have d: "(ls = []) = False"
    using assms(2) by simp
  show ?thesis
    unfolding enrichLeads_def Let_def
    by (simp only: assms(1) option.case c d if_False a assms(4) assms(5) assms(6) sum.case
        length_js_sort)
qed

text \<open>A threshold that cannot be converted to a number: the handler answers 500.\<close>

lemma enrichLeads_unconvertible:
  assumes "leads req = Some ls" "ls \<noteq> []"
    and "\<not> (falsy (topic req) \<and> falsy (icp_description req))"
    and "(if (case enable_website_scraping req of None \<Rightarrow> True | Some b \<Rightarrow> b)
             \<and> filter (\<lambda>u. \<not> falsy u) (map lead_url (take 50 ls)) \<noteq> []
          then (case scrapeMultiple rt (map the (filter (\<lambda>u. \<not> falsy u) (map lead_url (take 50 ls)))) 5 of
                  None \<Rightarrow> None
                | Some scrapedData \<Rightarrow> Some (map (attach_scraped scrapedData) (take 50 ls)))
          else Some (take 50 ls)) = Some e1"
    and "(if (case enable_ai_analysis req of None \<Rightarrow> True | Some b \<Rightarrow> b)
          then analyzeCompanies rt (new_CompanyAnalysisService env) e1
                 (the (or_str (topic req) (icp_description req)))
          else Inr e1) = Inr e2"
    and "parseFloat (engine rt)
           (Some (case min_relevance_score req of None \<Rightarrow> JNum (Fin 5) | Some j \<Rightarrow> j)) = Inl e"
  shows "enrichLeads rt env req = Some (Status500 ''Enrichment failed'' (message e))"
proof -
  have a: "js_slice ls 0 (int (min (length ls) 50)) = take 50 ls"
    by (simp add: js_slice_0 take_min_length)
  have c: "(falsy (topic req) \<and> falsy (icp_description req)) = False"
    using assms(3) by simp
  have d: "(ls = []) = False"
    using assms(2) by simp
  show ?thesis
    unfolding enrichLeads_def Let_def
    by (simp only: assms(1) option.case c d if_False a assms(4) assms(5) assms(6) sum.case)
qed

text \<open>
  C1. Every request is answered. When the answer carries leads, the number processed
  is \<open>min(len(input), 50)\<close>, at most that many leads are returned, each returned lead is
  one of the first 50 input leads with enrichment fields added, the leads after the
  first 50 have no influence on the returned list, and, unless AI analysis is switched
  off, every returned lead has a \<open>relevanceScore\<close> that is at least
  \<open>parseFloat(min_relevance_score)\<close>, where the threshold defaults to 5. An answer that
  carries leads is given only when \<open>parseFloat\<close> converts the threshold to a number,
  and it reports that number.
\<close>

theorem enrichLeads_batch_bounds:
  "\<exists>resp. enrichLeads rt env req = Some resp \<and>
     (\<forall>out meta. resp = Json200 out meta \<longrightarrow>
        (\<exists>ls. leads req = Some ls
           \<and> total_processed meta = min (length ls) 50
           \<and> length out \<le> min (length ls) 50
           \<and> (\<forall>l\<in>set out. \<exists>l0\<in>set (take 50 ls). input_fields l = input_fields l0)
           \<and> enrichLeads rt env (req\<lparr> leads := Some (take 50 ls) \<rparr>)
               = Some (Json200 out (meta\<lparr> total_input := min (length ls) 50 \<rparr>))
           \<and> (\<exists>m. parseFloat (engine rt)
                      (Some (case min_relevance_score req of
                               None \<Rightarrow> JNum (Fin 5) | Some j \<Rightarrow> j)) = Inr m
                  \<and> meta_min_relevance_score meta = m
                  \<and> (enable_ai_analysis req \<noteq> Some False \<longrightarrow>
                       (\<forall>l\<in>set out. \<exists>s. relevanceScore l = Some s \<and> js_ge s m)))))"
proof (cases "leads req = None \<or> leads req = Some []
              \<or> (falsy (topic req) \<and> falsy (icp_description req))")
  case True
  from enrichLeads_invalid [OF this] show ?thesis by auto
next
  case False
  then obtain ls where ls: "leads req = Some ls" "ls \<noteq> []"
    and tp: "\<not> (falsy (topic req) \<and> falsy (icp_description req))"
    by auto
  let ?scraping = "case enable_website_scraping req of None \<Rightarrow> True | Some b \<Rightarrow> b"
  let ?analysis = "case enable_ai_analysis req of None \<Rightarrow> True | Some b \<Rightarrow> b"
  let ?min = "case min_relevance_score req of None \<Rightarrow> JNum (Fin 5) | Some j \<Rightarrow> j"
  let ?T = "the (or_str (topic req) (icp_description req))"
  let ?urls = "filter (\<lambda>u. \<not> falsy u) (map lead_url (take 50 ls))"
  let ?cmp = "\<lambda>a b. js_sub (or_zero (relevanceScore b)) (or_zero (relevanceScore a))"
  obtain sd where sd: "scrapeMultiple rt (map the ?urls) 5 = Some sd"
    using scrapeMultiple_returns [of 5 rt "map the ?urls"] by auto
  define e1 where "e1 = (if ?scraping \<and> ?urls \<noteq> [] then map (attach_scraped sd) (take 50 ls)
                         else take 50 ls)"
  have s1: "(if ?scraping \<and> ?urls \<noteq> []
          then (case scrapeMultiple rt (map the ?urls) 5 of
                  None \<Rightarrow> None
                | Some scrapedData \<Rightarrow> Some (map (attach_scraped scrapedData) (take 50 ls)))
          else Some (take 50 ls)) = Some e1"
    by (simp add: e1_def sd)
  have e1_len: "length e1 = min (length ls) 50"
    by (simp add: e1_def min.commute)
  have e1_in: "\<forall>l\<in>set e1. \<exists>l0\<in>set (take 50 ls). input_fields l = input_fields l0"
    by (auto simp: e1_def input_fields_attach)
  obtain rs where rs: "analyzeCompanies rt (new_CompanyAnalysisService env) e1 ?T = Inr rs"
    and rs_len: "length rs = length e1"
    and rs_in: "\<forall>l\<in>set rs. \<exists>l0\<in>set e1. \<exists>v.
                   l = l0\<lparr> aiAnalysis := Some v, relevanceScore := Some (score v) \<rparr> \<and> score v \<noteq> NaN"
    using analyzeCompanies_Inr [of rt "new_CompanyAnalysisService env" e1 ?T] by blast
  define e2 where "e2 = (if ?analysis then rs else e1)"
  have s2: "(if ?analysis then analyzeCompanies rt (new_CompanyAnalysisService env) e1 ?T
             else Inr e1) = Inr e2"
    by (simp add: e2_def rs)
  have e2_len: "length e2 = min (length ls) 50"
    by (simp add: e2_def rs_len e1_len)
  have e2_in: "\<forall>l\<in>set e2. \<exists>l0\<in>set (take 50 ls). input_fields l = input_fields l0"
  proof
    fix l assume l: "l \<in> set e2"
    show "\<exists>l0\<in>set (take 50 ls). input_fields l = input_fields l0"
    proof (cases ?analysis)
      case True
      with l have "l \<in> set rs" by (simp add: e2_def)
      with rs_in obtain l1 v where "l1 \<in> set e1"
        "l = l1\<lparr> aiAnalysis := Some v, relevanceScore := Some (score v) \<rparr>" by blast
      then show ?thesis using e1_in by (auto simp: input_fields_analysis)
    next
      case False
      with l have "l \<in> set e1" by (simp add: e2_def)
      then show ?thesis using e1_in by blast
    qed
  qed
  show ?thesis
  proof (cases "parseFloat (engine rt) (Some ?min)")
    case (Inl e)
    from enrichLeads_unconvertible [OF ls tp s1 s2 Inl] show ?thesis by simp
  next
    case (Inr m)
    let ?P = "\<lambda>l. \<not> ?analysis \<or> js_ge (or_zero (relevanceScore l)) m"
    have e2_score: "\<exists>s. relevanceScore l = Some s \<and> js_ge s m"
      if an: "enable_ai_analysis req \<noteq> Some False" and l: "l \<in> set e2" and p: "?P l" for l
    proof -
      from an have a: ?analysis by (cases "enable_ai_analysis req") auto
      with l have "l \<in> set rs" by (simp add: e2_def)
      with rs_in obtain s where s: "relevanceScore l = Some s" "s \<noteq> NaN" by force
      from p a have "js_ge (or_zero (relevanceScore l)) m" by simp
      then show ?thesis using s by (simp add: or_zero_Some)
    qed
    let ?out = "js_sort ?cmp (filter ?P e2)"
    note v = enrichLeads_valid [OF ls tp s1 s2 Inr]
    have out_len: "length ?out \<le> min (length ls) 50"
      using length_filter_le [of ?P e2] by (simp add: length_js_sort e2_len)
    have out_set: "set ?out = {l \<in> set e2. ?P l}"
      by (simp add: set_js_sort)
    let ?req' = "req\<lparr> leads := Some (take 50 ls) \<rparr>"
    have ls': "leads ?req' = Some (take 50 ls)" "take 50 ls \<noteq> []"
      using ls by simp_all
    have tt: "take 50 (take 50 ls) = take 50 ls"
      by simp
    have r1: "enable_website_scraping ?req' = enable_website_scraping req"
      and r2: "enable_ai_analysis ?req' = enable_ai_analysis req"
      and r3: "topic ?req' = topic req"
      and r4: "icp_description ?req' = icp_description req"
      and r5: "min_relevance_score ?req' = min_relevance_score req"
      by simp_all
    have tp': "\<not> (falsy (topic ?req') \<and> falsy (icp_description ?req'))"
      unfolding r3 r4 by (rule tp)
    have s1': "(if (case enable_website_scraping ?req' of None \<Rightarrow> True | Some b \<Rightarrow> b)
               \<and> filter (\<lambda>u. \<not> falsy u) (map lead_url (take 50 (take 50 ls))) \<noteq> []
            then (case scrapeMultiple rt (map the (filter (\<lambda>u. \<not> falsy u) (map lead_url (take 50 (take 50 ls))))) 5 of
                    None \<Rightarrow> None
                  | Some scrapedData \<Rightarrow> Some (map (attach_scraped scrapedData) (take 50 (take 50 ls))))
            else Some (take 50 (take 50 ls))) = Some e1"
      unfolding tt r1 by (rule s1)
    have s2': "(if (case enable_ai_analysis ?req' of None \<Rightarrow> True | Some b \<Rightarrow> b)
            then analyzeCompanies rt (new_CompanyAnalysisService env) e1
                   (the (or_str (topic ?req') (icp_description ?req')))
            else Inr e1) = Inr e2"
      unfolding r2 r3 r4 by (rule s2)
    have m': "parseFloat (engine rt)
                 (Some (case min_relevance_score ?req' of None \<Rightarrow> JNum (Fin 5) | Some j \<Rightarrow> j)) = Inr m"
      unfolding r5 by (rule Inr)
    have v': "enrichLeads rt env ?req' =
                Some (Json200 ?out
                  \<lparr> total_input = min (length ls) 50,
                    total_processed = min (length ls) 50,
                    total_enriched = length (filter ?P e2),
                    website_scraping_enabled = ?scraping,
                    ai_analysis_enabled = ?analysis,
                    meta_min_relevance_score = m,
                    meta_topic = ?T \<rparr>)"
      using enrichLeads_valid [OF ls' tp' s1' s2' m']
      by (simp only: r1 r2 r3 r4 r5 length_take min.idem min.commute [of 50] min.assoc)
    show ?thesis
      using v v' ls out_len out_set e2_in e2_score Inr
      by (auto simp del: set_filter)
  qed
qed

lemma sample_enrichLeads:
  "enrichLeads (sample_rt (Inr over_range_response)) sample_env sample_request =
     Some (Json200
       [(sample_lead ''Acme'' (Some ''https://acme.com''))
          \<lparr> websiteContent :=
              Some (''Title: Acme Cloud'' @ nl @ nl @
                    ''Description: Managed Kubernetes for teams'' @ nl @ nl @
                    ''Key Sections: Products | DevOps'' @ nl @ nl @
                    ''Content: We run AWS and Kubernetes.''),
            websiteScraped := Some True,
            lead_scrapedAt := Some ''2024-01-01T00:00:00.000Z'',
            aiAnalysis :=
              Some \<lparr> isRelevant = Some True, confidence = Fin 150, score = Fin 15,
                     reasoning = JStr [], keyMatches = Some (JArr []),
                     concerns = Some (JArr []) \<rparr>,
            relevanceScore := Some (Fin 15) \<rparr>,
        (sample_lead ''NoSite'' None)
          \<lparr> websiteScraped := Some False,
            aiAnalysis :=
              Some \<lparr> isRelevant = Some True, confidence = Fin 150, score = Fin 15,
                     reasoning = JStr [], keyMatches = Some (JArr []),
                     concerns = Some (JArr []) \<rparr>,
            relevanceScore := Some (Fin 15) \<rparr>]
       \<lparr> total_input = 2, total_processed = 2, total_enriched = 2,
         website_scraping_enabled = True, ai_analysis_enabled = True,
         meta_min_relevance_score = Fin 5, meta_topic = ''cloud'' \<rparr>)"
  by code_simp

theorem enrichLeads_batch_bounds_witness:
  "enrichLeads (sample_rt (Inr over_range_response)) sample_env sample_request \<noteq> None
   \<and> enable_ai_analysis sample_request \<noteq> Some False
   \<and> (\<exists>out meta.
         enrichLeads (sample_rt (Inr over_range_response)) sample_env sample_request
           = Some (Json200 out meta)
         \<and> length out = 2 \<and> total_processed meta = 2
         \<and> map relevanceScore out = [Some (Fin 15), Some (Fin 15)]
         \<and> meta_min_relevance_score meta = Fin 5
         \<and> parseFloat (engine (sample_rt (Inr over_range_response))) (Some (JNum (Fin 5)))
             = Inr (Fin 5)
         \<and> js_ge (Fin 15) (Fin 5))"
  using enrichLeads_batch_bounds [of "sample_rt (Inr over_range_response)" sample_env sample_request]
    sample_enrichLeads
  by (simp add: sample_request_def parseFloat_number)

end
